theory Spec2Isabelle
  imports Complex_Main "HOL-Library.Sublist"
begin

section \<open>JavaScript values\<close>

text \<open>
  The workflow orchestrator is the React component \<^verbatim>\<open>App\<close>. The repository holds three
  revisions of it: \<^verbatim>\<open>src/App.tsx\<close> (two providers), an unnamed file with the same provider
  logic plus the result aggregator (called revision \<open>part002\<close> below) and an unnamed file
  for the single Gemini provider (revision \<open>part001\<close>). Definitions without a suffix
  follow \<^verbatim>\<open>src/App.tsx\<close>; a definition of another revision carries its suffix.

  A value of TypeScript type \<^verbatim>\<open>any\<close> that came out of \<^verbatim>\<open>JSON.parse\<close>:
\<close>

datatype json =
    JNull
  | JBool bool
  | JNumber real
  | JString string
  | JArray "json list"
  | JObject "(string \<times> json) list"

text \<open>
  What a \<^verbatim>\<open>throw\<close> carries: an \<^verbatim>\<open>Error\<close> with its message (\<open>JsError\<close>), a
  \<^verbatim>\<open>TypeError\<close> or an \<^verbatim>\<open>OpenAI.APIError\<close> with its HTTP status (both are subclasses of
  \<^verbatim>\<open>Error\<close>), or a value that is no \<^verbatim>\<open>Error\<close> at all.
  A function that may throw returns \<open>thrown + 'a\<close>, \<open>Inl\<close> being the exception.
\<close>

datatype thrown =
    JsError (message: string)
  | TypeError (message: string)
  | APIError (api_status: "nat option") (message: string)
  | NonError

fun instanceof_Error :: "thrown \<Rightarrow> bool" where
  "instanceof_Error (JsError m) = True"
| "instanceof_Error (TypeError m) = True"
| "instanceof_Error (APIError s m) = True"
| "instanceof_Error NonError = False"

text \<open>\<^verbatim>\<open>s.includes(t)\<close>: \<open>t\<close> occurs in \<open>s\<close> as a contiguous block.\<close>

definition js_includes :: "string \<Rightarrow> string \<Rightarrow> bool" where
  "js_includes s t = sublist t s"

text \<open>
  \<^verbatim>\<open>s.toLowerCase()\<close> on the ASCII letters; every other character is kept, so the model
  is exact on ASCII text. The words the code compares a lower-cased text with are ASCII:
  \<^verbatim>\<open>gemini\<close>, \<^verbatim>\<open>openai\<close>, \<^verbatim>\<open>positive\<close> and \<^verbatim>\<open>negative\<close>.
\<close>

definition lower_char :: "char \<Rightarrow> char" where
  "lower_char c =
     (let n = (of_char c :: nat)
      in if of_char CHR ''A'' \<le> n \<and> n \<le> of_char CHR ''Z'' then char_of (n + 32) else c)"

definition toLowerCase :: "string \<Rightarrow> string" where
  "toLowerCase s = map lower_char s"

section \<open>Structured output extractor: \<^verbatim>\<open>parseJsonOutput\<close>\<close>

text \<open>
  \<^verbatim>\<open>src/App.tsx\<close>, lines 252-257:
  \<^verbatim>\<open>
  const parseJsonOutput = (text: string): any | null => {
      try {
        const jsonMatch = text.match(/```json\n([\s\S]*?)\n```/);
        return JSON.parse(jsonMatch ? jsonMatch[1] : text);
      } catch (e) { return null; }
  };
  \<close>
  \<^verbatim>\<open>String.prototype.match\<close> with a regular expression without the \<^verbatim>\<open>g\<close> flag tries the
  start positions from left to right and returns the first match. At one position the
  pattern asks for the opening fence, then the shortest run of arbitrary characters
  (\<^verbatim>\<open>[\s\S]*?\<close> is lazy) that is followed by the closing fence.
\<close>

definition fence_open :: string where
  "fence_open = ''```json\<newline>''"

definition fence_close :: string where
  "fence_close = ''\<newline>```''"

text \<open>
  \<open>find_first pat s\<close> splits \<open>s\<close> around the leftmost occurrence of \<open>pat\<close>: the text
  before it and the text after it.
\<close>

fun find_first :: "'a list \<Rightarrow> 'a list \<Rightarrow> ('a list \<times> 'a list) option" where
  "find_first pat [] = (if pat = [] then Some ([], []) else None)"
| "find_first pat (c # cs) =
     (if prefix pat (c # cs) then Some ([], drop (length pat) (c # cs))
      else map_option (\<lambda>(pre, post). (c # pre, post)) (find_first pat cs))"

text \<open>The fenced alternative tried at the start of \<open>s\<close>: capture group 1 when it matches.\<close>

definition alt_fence :: "string \<Rightarrow> string option" where
  "alt_fence s =
     (if prefix fence_open s
      then map_option fst (find_first fence_close (drop (length fence_open) s))
      else None)"

text \<open>\<^verbatim>\<open>text.match(/```json\n([\s\S]*?)\n```/)\<close>: \<open>None\<close> is \<^verbatim>\<open>null\<close>, \<open>Some g\<close> a match whose group 1 is \<open>g\<close>.\<close>

fun match_fence :: "string \<Rightarrow> string option" where
  "match_fence [] = None"
| "match_fence (c # cs) =
     (case alt_fence (c # cs) of Some g \<Rightarrow> Some g | None \<Rightarrow> match_fence cs)"

text \<open>The argument handed to \<^verbatim>\<open>JSON.parse\<close>: \<^verbatim>\<open>jsonMatch ? jsonMatch[1] : text\<close>.\<close>

definition parseJsonOutput_arg :: "string \<Rightarrow> string" where
  "parseJsonOutput_arg text = (case match_fence text of Some g1 \<Rightarrow> g1 | None \<Rightarrow> text)"

text \<open>
  \<^verbatim>\<open>JSON.parse\<close> belongs to the JavaScript runtime and is a parameter \<open>parse\<close>: it returns
  the value or throws a \<^verbatim>\<open>SyntaxError\<close>. The \<^verbatim>\<open>catch\<close> turns every exception into \<^verbatim>\<open>null\<close>.
\<close>

definition parseJsonOutput :: "(string \<Rightarrow> thrown + json) \<Rightarrow> string \<Rightarrow> thrown + json" where
  "parseJsonOutput parse text =
     (case parse (parseJsonOutput_arg text) of Inl e \<Rightarrow> Inr JNull | Inr v \<Rightarrow> Inr v)"

text \<open>
  Revision \<open>part001\<close>, lines 227-236:
  \<^verbatim>\<open>
  const parseJsonOutput = (text: string): any | null => {
      try {
        const jsonMatch = text.match(/```json\n([\s\S]*?)\n```|({[\s\S]*})|(\[[\s\S]*\])/);
        if (jsonMatch) {
            const jsonString = jsonMatch[1] || jsonMatch[2] || jsonMatch[3];
            return JSON.parse(jsonString);
        }
        return JSON.parse(text);
      } catch (e) { return null; }
  };
  \<close>
  At each start position the three alternatives are tried in order. The second and the
  third are greedy: an opening bracket, then the longest run of characters that is
  followed by the closing bracket, which is the last closing bracket of the text.
\<close>

definition through_last :: "'a \<Rightarrow> 'a list \<Rightarrow> 'a list" where
  "through_last c xs = rev (dropWhile (\<lambda>x. x \<noteq> c) (rev xs))"

definition alt_span :: "char \<Rightarrow> char \<Rightarrow> string \<Rightarrow> string option" where
  "alt_span opening closing s =
     (case s of
        [] \<Rightarrow> None
      | x # rest \<Rightarrow>
          if x = opening \<and> closing \<in> set rest then Some (x # through_last closing rest)
          else None)"

text \<open>The match: \<^verbatim>\<open>null\<close>, or the three capture groups (\<open>None\<close> is \<^verbatim>\<open>undefined\<close>).\<close>

fun match_part001 :: "string \<Rightarrow> (string option \<times> string option \<times> string option) option" where
  "match_part001 [] = None"
| "match_part001 (c # cs) =
     (case alt_fence (c # cs) of
        Some g \<Rightarrow> Some (Some g, None, None)
      | None \<Rightarrow>
         (case alt_span CHR ''{'' CHR ''}'' (c # cs) of
            Some g \<Rightarrow> Some (None, Some g, None)
          | None \<Rightarrow>
             (case alt_span CHR ''['' CHR '']'' (c # cs) of
                Some g \<Rightarrow> Some (None, None, Some g)
              | None \<Rightarrow> match_part001 cs)))"

text \<open>\<^verbatim>\<open>a || b\<close> on values that are a string or \<^verbatim>\<open>undefined\<close>: the empty string is falsy.\<close>

definition js_or :: "string option \<Rightarrow> string option \<Rightarrow> string option" where
  "js_or a b = (case a of Some s \<Rightarrow> (if s \<noteq> [] then Some s else b) | None \<Rightarrow> b)"

text \<open>
  The argument handed to \<^verbatim>\<open>JSON.parse\<close>. \<^verbatim>\<open>JSON.parse(undefined)\<close> converts its argument to
  the string \<^verbatim>\<open>undefined\<close> first.
\<close>

definition parseJsonOutput_part001_arg :: "string \<Rightarrow> string" where
  "parseJsonOutput_part001_arg text =
     (case match_part001 text of
        Some (g1, g2, g3) \<Rightarrow>
          (case js_or (js_or g1 g2) g3 of Some jsonString \<Rightarrow> jsonString | None \<Rightarrow> ''undefined'')
      | None \<Rightarrow> text)"

definition parseJsonOutput_part001 :: "(string \<Rightarrow> thrown + json) \<Rightarrow> string \<Rightarrow> thrown + json" where
  "parseJsonOutput_part001 parse text =
     (case parse (parseJsonOutput_part001_arg text) of Inl e \<Rightarrow> Inr JNull | Inr v \<Rightarrow> Inr v)"

section \<open>Data model (\<^verbatim>\<open>types.ts\<close>)\<close>

datatype AgentStatus = Pending | Running | Success | Error

text \<open>
  \<^verbatim>\<open>Agent\<close>. The fields \<^verbatim>\<open>id\<close> and \<^verbatim>\<open>output\<close> are \<open>agent_id\<close> and \<open>agent_output\<close>
  here; \<^verbatim>\<open>output\<close> and \<^verbatim>\<open>error\<close> are \<^verbatim>\<open>string | null\<close>; \<^verbatim>\<open>outputJson\<close> is \<^verbatim>\<open>any | null\<close>,
  \<^verbatim>\<open>null\<close> being \<open>JNull\<close>. The field \<^verbatim>\<open>model\<close> is the one \<^verbatim>\<open>src/App.tsx\<close> reads and writes
  (\<^verbatim>\<open>provider/model-name\<close>); revision \<open>part001\<close> does not use it.
\<close>

record Agent =
  agent_id :: string
  name :: string
  prompt :: string
  model :: string
  status :: AgentStatus
  agent_output :: "string option"
  error :: "string option"
  outputJson :: json

datatype DocumentType = PDF | TXT | EMPTY

text \<open>\<^verbatim>\<open>DocumentFile\<close>, with the two fields the workflow reads.\<close>

record DocumentFile =
  doc_type :: DocumentType
  content :: string

record Sentiment =
  positive :: nat
  negative :: nat
  neutral :: nat

record AnalysisResult =
  sentiment :: "Sentiment option"
  entities :: "json list option"

section \<open>Application state\<close>

text \<open>
  What is handed to a provider SDK: the loop step, the provider, the model name
  (\<open>None\<close> is \<^verbatim>\<open>undefined\<close>) and the prompt text.
\<close>

record request =
  r_step :: nat
  r_provider :: string
  r_model :: "string option"
  r_prompt :: string

text \<open>
  The state of the component \<^verbatim>\<open>App\<close> (its \<^verbatim>\<open>useState\<close> cells) and the two module-level
  SDK clients, \<open>True\<close> when the client is not \<^verbatim>\<open>null\<close>. Revision \<open>part001\<close> has one
  provider: its \<^verbatim>\<open>envApiKey\<close>, \<^verbatim>\<open>userApiKey\<close> and \<^verbatim>\<open>ai\<close> are \<open>envGeminiApiKey\<close>,
  \<open>userGeminiApiKey\<close> and \<open>geminiAI\<close> here (the same environment variable and the same
  storage key). Three fields are observations rather than state of the program:
  \<open>requests\<close> lists what was handed to the SDKs, \<open>alerts\<close> the texts of \<^verbatim>\<open>alert(...)\<close>, and
  \<open>rejection\<close> is the exception an \<^verbatim>\<open>async\<close> callback let escape.
\<close>

record app =
  agents :: "Agent list"
  documentFile :: DocumentFile
  envGeminiApiKey :: string
  envOpenAIApiKey :: string
  userGeminiApiKey :: string
  userOpenAIApiKey :: string
  geminiAI :: bool
  openai :: bool
  apiKeyError :: string
  isApiKeyModalOpen :: bool
  isProcessing :: bool
  analysisResult :: "AnalysisResult option"
  activeTab :: string
  requests :: "request list"
  alerts :: "string list"
  rejection :: "thrown option"

text \<open>
  The JavaScript runtime and the provider SDKs: \<^verbatim>\<open>JSON.parse\<close>, the Gemini call
  \<^verbatim>\<open>getGenerativeModel({model}).generateContent(prompt)\<close> up to \<^verbatim>\<open>response.text()\<close>, and the
  OpenAI call \<^verbatim>\<open>chat.completions.create\<close> up to \<^verbatim>\<open>choices[0]?.message?.content\<close>. A
  provider may answer the same prompt differently each time, so each call also takes the
  loop step it is made in.
\<close>

record runtime =
  JSON_parse :: "string \<Rightarrow> thrown + json"
  generateContent :: "nat \<Rightarrow> string option \<Rightarrow> string \<Rightarrow> thrown + string"
  chatCompletionsCreate :: "nat \<Rightarrow> string option \<Rightarrow> string \<Rightarrow> thrown + string option"

text \<open>
  \<^verbatim>\<open>const effectiveGeminiApiKey = useMemo(() => envGeminiApiKey || userGeminiApiKey, ...)\<close>
  and \<^verbatim>\<open>const isGeminiKeySet = !!effectiveGeminiApiKey\<close>; likewise for OpenAI.
\<close>

definition effectiveGeminiApiKey :: "app \<Rightarrow> string" where
  "effectiveGeminiApiKey st =
     (if envGeminiApiKey st \<noteq> [] then envGeminiApiKey st else userGeminiApiKey st)"

definition effectiveOpenAIApiKey :: "app \<Rightarrow> string" where
  "effectiveOpenAIApiKey st =
     (if envOpenAIApiKey st \<noteq> [] then envOpenAIApiKey st else userOpenAIApiKey st)"

definition isGeminiKeySet :: "app \<Rightarrow> bool" where
  "isGeminiKeySet st = (effectiveGeminiApiKey st \<noteq> [])"

definition isOpenAIKeySet :: "app \<Rightarrow> bool" where
  "isOpenAIKeySet st = (effectiveOpenAIApiKey st \<noteq> [])"

text \<open>
  The component when it is first shown, for the given environment keys and the keys
  found in local storage: the initial values of the \<^verbatim>\<open>useState\<close> cells, and the clients as
  the first \<^verbatim>\<open>useEffect\<close> leaves them (created when the effective key is not empty).
\<close>

definition initial_app :: "string \<Rightarrow> string \<Rightarrow> string \<Rightarrow> string \<Rightarrow> app" where
  "initial_app envGemini envOpenAI userGemini userOpenAI =
     \<lparr>agents = [],
      documentFile = \<lparr>doc_type = EMPTY, content = []\<rparr>,
      envGeminiApiKey = envGemini,
      envOpenAIApiKey = envOpenAI,
      userGeminiApiKey = userGemini,
      userOpenAIApiKey = userOpenAI,
      geminiAI = ((if envGemini \<noteq> [] then envGemini else userGemini) \<noteq> []),
      openai = ((if envOpenAI \<noteq> [] then envOpenAI else userOpenAI) \<noteq> []),
      apiKeyError = [],
      isApiKeyModalOpen = False,
      isProcessing = False,
      analysisResult = None,
      activeTab = ''workflow'',
      requests = [],
      alerts = [],
      rejection = None\<rparr>"

section \<open>Agent registry: \<^verbatim>\<open>addAgent\<close>\<close>

text \<open>
  The decimal text of an integer, as a template literal writes \<^verbatim>\<open>${Date.now()}\<close>.
  \<open>string_of_nonneg\<close> is applied to numbers from 0 on, and \<open>digit_char\<close> to 0 ... 9.
\<close>

definition digit_char :: "int \<Rightarrow> char" where
  "digit_char d = ''0123456789'' ! nat d"

function string_of_nonneg :: "int \<Rightarrow> string" where
  "string_of_nonneg i =
     (if i < 10 then [digit_char i]
      else string_of_nonneg (i div 10) @ [digit_char (i mod 10)])"
  by pat_completeness auto
termination
  by (relation "measure nat") auto

declare string_of_nonneg.simps [simp del]

definition string_of_int :: "int \<Rightarrow> string" where
  "string_of_int i =
     (if i < 0 then CHR ''-'' # string_of_nonneg (- i) else string_of_nonneg i)"

text \<open>
  \<^verbatim>\<open>src/App.tsx\<close>, lines 235-244. The template carries \<^verbatim>\<open>name\<close> and \<^verbatim>\<open>prompt\<close>; \<open>now\<close> is
  the value \<^verbatim>\<open>Date.now()\<close> returns in this call, in milliseconds.
  \<^verbatim>\<open>
  const addAgent = (template: Omit<Agent, 'id' | 'status' | ... | 'model'>) => {
    const newAgent: Agent = {
      ...template,
      id: `agent-${Date.now()}`,
      status: AgentStatus.Pending,
      output: null, error: null, outputJson: null,
      model: MODEL_OPTIONS[0].value,
    };
    setAgents(prev => [...prev, newAgent]);
  };
  \<close>
  Revision \<open>part001\<close> (lines 214-217) builds the \<^verbatim>\<open>id\<close> with the same expression.
\<close>

record AgentTemplate =
  t_name :: string
  t_prompt :: string

definition MODEL_OPTIONS :: "string list" where
  "MODEL_OPTIONS = [''gemini/gemini-2.5-flash'', ''openai/gpt-4o-mini'', ''openai/gpt-4.1-mini'']"

definition addAgent :: "int \<Rightarrow> AgentTemplate \<Rightarrow> app \<Rightarrow> app" where
  "addAgent now template st =
     (let newAgent =
        \<lparr>agent_id = ''agent-'' @ string_of_int now,
         name = t_name template,
         prompt = t_prompt template,
         model = hd MODEL_OPTIONS,
         status = Pending,
         agent_output = None, error = None, outputJson = JNull\<rparr>
      in st\<lparr>agents := agents st @ [newAgent]\<rparr>)"

text \<open>
  \<^verbatim>\<open>src/App.tsx\<close>, lines 246-248; the parameter \<^verbatim>\<open>field\<close> is \<^verbatim>\<open>'prompt' | 'model'\<close>.
  \<^verbatim>\<open>
  const handleAgentChange = (id: string, field: 'prompt' | 'model', value: string) => {
    setAgents(prev => prev.map(agent => (agent.id === id ? { ...agent, [field]: value } : agent)));
  };
  \<close>
\<close>

datatype AgentField = PromptField | ModelField

definition handleAgentChange :: "string \<Rightarrow> AgentField \<Rightarrow> string \<Rightarrow> app \<Rightarrow> app" where
  "handleAgentChange i field v st =
     st\<lparr>agents :=
          map (\<lambda>agent. if agent_id agent = i
                       then (case field of
                               PromptField \<Rightarrow> agent\<lparr>prompt := v\<rparr>
                             | ModelField \<Rightarrow> agent\<lparr>model := v\<rparr>)
                       else agent)
              (agents st)\<rparr>"


section \<open>Completion provider gateway\<close>

text \<open>\<^verbatim>\<open>s.split('/')\<close>, and reading element \<open>n\<close> of an array (\<open>None\<close> is \<^verbatim>\<open>undefined\<close>).\<close>

fun split_on :: "'a \<Rightarrow> 'a list \<Rightarrow> 'a list list" where
  "split_on d [] = [[]]"
| "split_on d (c # cs) =
     (if c = d then [] # split_on d cs
      else (case split_on d cs of [] \<Rightarrow> [[c]] | x # xs \<Rightarrow> (c # x) # xs))"

definition element :: "'a list \<Rightarrow> nat \<Rightarrow> 'a option" where
  "element xs n = (if n < length xs then Some (xs ! n) else None)"

text \<open>A string or \<^verbatim>\<open>undefined\<close> inside a template literal.\<close>

definition template_text :: "string option \<Rightarrow> string" where
  "template_text v = (case v of Some s \<Rightarrow> s | None \<Rightarrow> ''undefined'')"

text \<open>
  The prompt text, in \<^verbatim>\<open>src/App.tsx\<close> (line 41), \<^verbatim>\<open>src/services/apiService.ts\<close> (line 47)
  and revision \<open>part001\<close> alike:
  \<^verbatim>\<open>`DOCUMENT CONTENT:\n---\n${documentContent}\n---\n\nTASK:\n${agent.prompt}`\<close>
\<close>

definition fullPrompt :: "string \<Rightarrow> string \<Rightarrow> string" where
  "fullPrompt documentContent agentPrompt =
     ''DOCUMENT CONTENT:\<newline>---\<newline>'' @ documentContent @ ''\<newline>---\<newline>\<newline>TASK:\<newline>'' @ agentPrompt"

text \<open>
  \<^verbatim>\<open>unifiedProcessAgentPrompt\<close> (\<^verbatim>\<open>src/App.tsx\<close>, lines 39-74; \<^verbatim>\<open>processAgentPrompt\<close> of
  \<^verbatim>\<open>src/services/apiService.ts\<close> has the same body). Every exception that leaves it is
  a new \<^verbatim>\<open>Error\<close> with one of five messages.
\<close>

definition unifiedProcessAgentPrompt :: "runtime \<Rightarrow> app \<Rightarrow> nat \<Rightarrow> Agent \<Rightarrow> string \<Rightarrow> thrown + string" where
  "unifiedProcessAgentPrompt rt st i agent documentContent =
     (let parts = split_on CHR ''/'' (model agent);
          provider = element parts 0;
          modelName = element parts 1;
          prompt_text = fullPrompt documentContent (prompt agent)
      in if provider = Some ''gemini'' then
           (if \<not> geminiAI st then Inl (JsError ''Gemini API key is not configured.'')
            else (case generateContent rt i modelName prompt_text of
                    Inr response \<Rightarrow> Inr response
                  | Inl e \<Rightarrow>
                      if instanceof_Error e
                         \<and> (js_includes (message e) ''API key not valid''
                            \<or> js_includes (message e) ''403'')
                      then Inl (JsError ''The provided Gemini API key is not valid. Please check it.'')
                      else Inl (JsError ''Failed to get response from Gemini API.'')))
         else if provider = Some ''openai'' then
           (if \<not> openai st then Inl (JsError ''OpenAI API key is not configured.'')
            else (case chatCompletionsCreate rt i modelName prompt_text of
                    Inr response \<Rightarrow> Inr (case response of Some c \<Rightarrow> c | None \<Rightarrow> [])
                  | Inl e \<Rightarrow>
                      if (case e of APIError s m \<Rightarrow> s = Some 401 | _ \<Rightarrow> False)
                      then Inl (JsError ''The provided OpenAI API key is not valid. Please check it.'')
                      else Inl (JsError ''Failed to get response from OpenAI API.'')))
         else Inl (JsError (''Unsupported provider: '' @ template_text provider)))"

text \<open>What that call hands to an SDK: one request when a client is reached, none otherwise.\<close>

definition unified_requests :: "app \<Rightarrow> nat \<Rightarrow> Agent \<Rightarrow> string \<Rightarrow> request list" where
  "unified_requests st i agent documentContent =
     (let parts = split_on CHR ''/'' (model agent);
          provider = element parts 0;
          modelName = element parts 1;
          prompt_text = fullPrompt documentContent (prompt agent)
      in if provider = Some ''gemini'' then
           (if geminiAI st
            then [\<lparr>r_step = i, r_provider = ''gemini'', r_model = modelName, r_prompt = prompt_text\<rparr>]
            else [])
         else if provider = Some ''openai'' then
           (if openai st
            then [\<lparr>r_step = i, r_provider = ''openai'', r_model = modelName, r_prompt = prompt_text\<rparr>]
            else [])
         else [])"

text \<open>
  \<^verbatim>\<open>processAgentPrompt(prompt, documentContent)\<close> of revision \<open>part001\<close> (lines 29-48): the
  Gemini provider with a fixed model.
\<close>

definition processAgentPrompt_part001 :: "runtime \<Rightarrow> app \<Rightarrow> nat \<Rightarrow> string \<Rightarrow> string \<Rightarrow> thrown + string" where
  "processAgentPrompt_part001 rt st i agentPrompt documentContent =
     (if \<not> geminiAI st then Inl (JsError ''Gemini API key is not configured. Please set it first.'')
      else (case generateContent rt i (Some ''gemini-2.5-flash'')
                   (fullPrompt documentContent agentPrompt) of
              Inr response \<Rightarrow> Inr response
            | Inl e \<Rightarrow>
                if instanceof_Error e \<and> js_includes (message e) ''API key not valid''
                then Inl (JsError ''The provided API key is not valid. Please check it and try again.'')
                else Inl (JsError ''Failed to get response from Gemini API.'')))"

definition requests_part001 :: "app \<Rightarrow> nat \<Rightarrow> string \<Rightarrow> string \<Rightarrow> request list" where
  "requests_part001 st i agentPrompt documentContent =
     (if geminiAI st
      then [\<lparr>r_step = i, r_provider = ''gemini'', r_model = Some ''gemini-2.5-flash'',
             r_prompt = fullPrompt documentContent agentPrompt\<rparr>]
      else [])"

section \<open>Result aggregator: \<^verbatim>\<open>analyzeResults\<close>\<close>

text \<open>
  Truthiness of a value that is \<^verbatim>\<open>undefined\<close> (\<open>None\<close>) or came out of \<^verbatim>\<open>JSON.parse\<close>.
\<close>

definition js_truthy :: "json option \<Rightarrow> bool" where
  "js_truthy v =
     (case v of
        None \<Rightarrow> False
      | Some JNull \<Rightarrow> False
      | Some (JBool b) \<Rightarrow> b
      | Some (JNumber r) \<Rightarrow> r \<noteq> 0
      | Some (JString s) \<Rightarrow> s \<noteq> []
      | Some (JArray xs) \<Rightarrow> True
      | Some (JObject kvs) \<Rightarrow> True)"

text \<open>
  Reading one of the properties \<^verbatim>\<open>sentiment\<close>, \<^verbatim>\<open>name\<close>, \<^verbatim>\<open>type\<close>, which only an object
  can have: \<open>opt_prop\<close> is \<^verbatim>\<open>v?.key\<close>, \<open>js_prop\<close> is \<^verbatim>\<open>v.key\<close>, which throws a \<^verbatim>\<open>TypeError\<close>
  on \<^verbatim>\<open>null\<close> (the engine's message is shortened).
\<close>

definition opt_prop :: "json \<Rightarrow> string \<Rightarrow> json option" where
  "opt_prop v key = (case v of JObject kvs \<Rightarrow> map_of kvs key | _ \<Rightarrow> None)"

definition js_prop :: "json \<Rightarrow> string \<Rightarrow> thrown + json option" where
  "js_prop v key =
     (case v of
        JNull \<Rightarrow> Inl (TypeError ''Cannot read properties of null'')
      | _ \<Rightarrow> Inr (opt_prop v key))"

text \<open>
  \<^verbatim>\<open>analyzeResults\<close>, the same text in revision \<open>part001\<close> (lines 238-256) and revision
  \<open>part002\<close> (lines 255-273); \<^verbatim>\<open>src/App.tsx\<close> has no aggregator.
  \<^verbatim>\<open>
  const sentimentAgent = currentAgents.find(a => a.name === 'Sentiment Analyzer' && a.status === AgentStatus.Success);
  const entityAgent = currentAgents.find(a => a.name === 'Entity Extractor' && a.status === AgentStatus.Success);
  let newAnalysis: AnalysisResult = { sentiment: null, entities: null };
  if(sentimentAgent?.outputJson?.sentiment) {
      const s = sentimentAgent.outputJson.sentiment.toLowerCase();
      if (s === 'positive') newAnalysis.sentiment = { positive: 1, negative: 0, neutral: 0 };
      else if (s === 'negative') newAnalysis.sentiment = { positive: 0, negative: 1, neutral: 0 };
      else newAnalysis.sentiment = { positive: 0, negative: 0, neutral: 1 };
  }
  if(entityAgent?.outputJson && Array.isArray(entityAgent.outputJson)) {
    newAnalysis.entities = entityAgent.outputJson.filter(e => e.name && e.type);
  }
  if(newAnalysis.sentiment || (newAnalysis.entities && newAnalysis.entities.length > 0)) {
      setAnalysisResult(newAnalysis);
      setActiveTab('dashboard');
  }
  \<close>
  The first \<^verbatim>\<open>if\<close>: a label that is truthy and not a string has no \<^verbatim>\<open>toLowerCase\<close>, and
  the call throws.
\<close>

definition sentiment_block :: "Agent option \<Rightarrow> thrown + Sentiment option" where
  "sentiment_block sentimentAgent =
     (let label = (case sentimentAgent of None \<Rightarrow> None | Some a \<Rightarrow> opt_prop (outputJson a) ''sentiment'')
      in if js_truthy label then
           (case label of
              Some (JString l) \<Rightarrow>
                (let s = toLowerCase l
                 in if s = ''positive'' then Inr (Some \<lparr>positive = 1, negative = 0, neutral = 0\<rparr>)
                    else if s = ''negative'' then Inr (Some \<lparr>positive = 0, negative = 1, neutral = 0\<rparr>)
                    else Inr (Some \<lparr>positive = 0, negative = 0, neutral = 1\<rparr>))
            | _ \<Rightarrow> Inl (TypeError ''toLowerCase is not a function''))
         else Inr None)"

text \<open>The callback \<^verbatim>\<open>e => e.name && e.type\<close>, as the truth value \<^verbatim>\<open>filter\<close> reads.\<close>

definition entity_pred :: "json \<Rightarrow> thrown + bool" where
  "entity_pred e =
     (case js_prop e ''name'' of
        Inl t \<Rightarrow> Inl t
      | Inr n \<Rightarrow>
          if js_truthy n
          then (case js_prop e ''type'' of Inl t \<Rightarrow> Inl t | Inr ty \<Rightarrow> Inr (js_truthy ty))
          else Inr False)"

fun filter_entities :: "json list \<Rightarrow> thrown + json list" where
  "filter_entities [] = Inr []"
| "filter_entities (e # es) =
     (case entity_pred e of
        Inl t \<Rightarrow> Inl t
      | Inr keep \<Rightarrow>
          (case filter_entities es of
             Inl t \<Rightarrow> Inl t
           | Inr kept \<Rightarrow> Inr (if keep then e # kept else kept)))"

definition entities_block :: "Agent option \<Rightarrow> thrown + json list option" where
  "entities_block entityAgent =
     (case entityAgent of
        None \<Rightarrow> Inr None
      | Some a \<Rightarrow>
          (case outputJson a of
             JArray es \<Rightarrow> (case filter_entities es of Inl t \<Rightarrow> Inl t | Inr kept \<Rightarrow> Inr (Some kept))
           | _ \<Rightarrow> Inr None))"

definition analyzeResults :: "Agent list \<Rightarrow> app \<Rightarrow> thrown + app" where
  "analyzeResults currentAgents st =
     (let sentimentAgent = find (\<lambda>a. name a = ''Sentiment Analyzer'' \<and> status a = Success) currentAgents;
          entityAgent = find (\<lambda>a. name a = ''Entity Extractor'' \<and> status a = Success) currentAgents
      in case sentiment_block sentimentAgent of
           Inl t \<Rightarrow> Inl t
         | Inr s \<Rightarrow>
            (case entities_block entityAgent of
               Inl t \<Rightarrow> Inl t
             | Inr es \<Rightarrow>
                 if s \<noteq> None \<or> (case es of Some kept \<Rightarrow> 0 < length kept | None \<Rightarrow> False)
                 then Inr (st\<lparr>analysisResult := Some \<lparr>sentiment = s, entities = es\<rparr>,
                              activeTab := ''dashboard''\<rparr>)
                 else Inr st))"


section \<open>Workflow orchestrator: \<^verbatim>\<open>runWorkflow\<close>\<close>

text \<open>
  \<^verbatim>\<open>agents.map(a => ({...a, status: AgentStatus.Pending, output: null, error: null,
  outputJson: null}))\<close>, one element.
\<close>

definition reset_agent :: "Agent \<Rightarrow> Agent" where
  "reset_agent a = a\<lparr>status := Pending, agent_output := None, error := None, outputJson := JNull\<rparr>"

text \<open>
  \<^verbatim>\<open>currentAgents.map(a => (a.id === agent.id ? { ...a, <changes> } : a))\<close>: the update
  reaches every element whose \<^verbatim>\<open>id\<close> equals the \<^verbatim>\<open>id\<close> of the agent being run.
\<close>

definition update_by_id :: "string \<Rightarrow> (Agent \<Rightarrow> Agent) \<Rightarrow> Agent list \<Rightarrow> Agent list" where
  "update_by_id i f currentAgents = map (\<lambda>a. if agent_id a = i then f a else a) currentAgents"

text \<open>
  The body of \<^verbatim>\<open>try\<close>: the provider call, then \<^verbatim>\<open>parseJsonOutput\<close> on its text.
\<close>

definition try_step ::
  "(nat \<Rightarrow> Agent \<Rightarrow> thrown + string) \<Rightarrow> (string \<Rightarrow> thrown + json) \<Rightarrow> nat \<Rightarrow> Agent
     \<Rightarrow> thrown + (string \<times> json)" where
  "try_step call parse_output i agent =
     (case call i agent of
        Inl e \<Rightarrow> Inl e
      | Inr response \<Rightarrow>
          (case parse_output response of Inl e \<Rightarrow> Inl e | Inr j \<Rightarrow> Inr (response, j)))"

text \<open>
  The \<^verbatim>\<open>for\<close> loop of \<^verbatim>\<open>runWorkflow\<close> (\<^verbatim>\<open>src/App.tsx\<close>, lines 277-297):
  \<^verbatim>\<open>
  for (const agent of agents) {
      currentAgents = currentAgents.map(a => (a.id === agent.id ? { ...a, status: AgentStatus.Running } : a));
      setAgents(currentAgents);
    try {
      const output = await unifiedProcessAgentPrompt(agent, documentFile.content);
      const outputJson = parseJsonOutput(output);
      currentAgents = currentAgents.map(a => (a.id === agent.id ? { ...a, status: AgentStatus.Success, output, outputJson } : a));
      setAgents(currentAgents);
    } catch (error) {
      const errorMessage = error instanceof Error ? error.message : 'An unknown error occurred';
      if (errorMessage.includes('API key')) {
          setApiKeyError(errorMessage);
          setIsApiKeyModalOpen(true);
          if (errorMessage.toLowerCase().includes('gemini')) setUserGeminiApiKey('');
          if (errorMessage.toLowerCase().includes('openai')) setUserOpenAIApiKey('');
      }
      currentAgents = currentAgents.map(a => (a.id === agent.id ? { ...a, status: AgentStatus.Error, error: errorMessage } : a));
      setAgents(currentAgents);
      break;
    }
  }
  \<close>
  The three revisions have this loop word for word, except for the provider call
  (\<open>call\<close>, with the requests it makes, \<open>sent\<close>) and the statements inside
  \<^verbatim>\<open>if (errorMessage.includes('API key'))\<close> (\<open>on_key_error\<close>); these are parameters. The loop
  runs over the list \<^verbatim>\<open>agents\<close> as it was when the callback was created; the variable
  \<^verbatim>\<open>currentAgents\<close> and the state cell \<^verbatim>\<open>agents\<close> hold the same list after each
  \<^verbatim>\<open>setAgents\<close>, and are the field \<open>agents\<close> of the state. \<open>i\<close> counts the steps.
\<close>

fun workflow_loop ::
  "(nat \<Rightarrow> Agent \<Rightarrow> thrown + string) \<Rightarrow> (nat \<Rightarrow> Agent \<Rightarrow> request list)
     \<Rightarrow> (string \<Rightarrow> thrown + json) \<Rightarrow> (string \<Rightarrow> app \<Rightarrow> app)
     \<Rightarrow> nat \<Rightarrow> Agent list \<Rightarrow> app \<Rightarrow> app" where
  "workflow_loop call sent parse_output on_key_error i [] st = st"
| "workflow_loop call sent parse_output on_key_error i (agent # rest) st =
     (let st1 = st\<lparr>agents := update_by_id (agent_id agent) (\<lambda>a. a\<lparr>status := Running\<rparr>) (agents st),
                   requests := requests st @ sent i agent\<rparr>
      in case try_step call parse_output i agent of
           Inr (response, j) \<Rightarrow>
             workflow_loop call sent parse_output on_key_error (Suc i) rest
               (st1\<lparr>agents := update_by_id (agent_id agent)
                  (\<lambda>a. a\<lparr>status := Success, agent_output := Some response, outputJson := j\<rparr>)
                  (agents st1)\<rparr>)
         | Inl e \<Rightarrow>
             (let errorMessage =
                    (if instanceof_Error e then message e else ''An unknown error occurred'');
                  st2 = (if js_includes errorMessage ''API key''
                         then on_key_error errorMessage st1 else st1)
              in st2\<lparr>agents := update_by_id (agent_id agent)
                   (\<lambda>a. a\<lparr>status := Error, error := Some errorMessage\<rparr>) (agents st1)\<rparr>))"

text \<open>The statements inside \<^verbatim>\<open>if (errorMessage.includes('API key'))\<close>, \<^verbatim>\<open>src/App.tsx\<close>.\<close>

definition on_key_error :: "string \<Rightarrow> app \<Rightarrow> app" where
  "on_key_error errorMessage st =
     (let st1 = st\<lparr>apiKeyError := errorMessage, isApiKeyModalOpen := True\<rparr>;
          st2 = (if js_includes (toLowerCase errorMessage) ''gemini''
                 then st1\<lparr>userGeminiApiKey := []\<rparr> else st1)
      in if js_includes (toLowerCase errorMessage) ''openai''
         then st2\<lparr>userOpenAIApiKey := []\<rparr> else st2)"

text \<open>
  Revision \<open>part001\<close>: \<^verbatim>\<open>setApiKeyError(errorMessage); setUserApiKey('');\<close>
\<close>

definition on_key_error_part001 :: "string \<Rightarrow> app \<Rightarrow> app" where
  "on_key_error_part001 errorMessage st = st\<lparr>apiKeyError := errorMessage, userGeminiApiKey := []\<rparr>"

text \<open>\<^verbatim>\<open>new Set(agents.map(a => a.model.split('/')[0]))\<close>, as the list of its members.\<close>

definition requiredProviders :: "Agent list \<Rightarrow> string option list" where
  "requiredProviders agent_list = map (\<lambda>a. element (split_on CHR ''/'' (model a)) 0) agent_list"

text \<open>
  \<^verbatim>\<open>runWorkflow\<close> of \<^verbatim>\<open>src/App.tsx\<close> (lines 259-299): the two credential checks
  \<^verbatim>\<open>
  const requiredProviders = new Set(agents.map(a => a.model.split('/')[0]));
  if (requiredProviders.has('gemini') && !isGeminiKeySet) {
    setApiKeyError("A Gemini API key is required for this workflow.");
    setIsApiKeyModalOpen(true);
    return;
  }
  if (requiredProviders.has('openai') && !isOpenAIKeySet) {
    setApiKeyError("An OpenAI API key is required for this workflow.");
    setIsApiKeyModalOpen(true);
    return;
  }
  \<close>
  then the reset of every agent, the loop, and \<^verbatim>\<open>setIsProcessing(false)\<close>.
\<close>

definition runWorkflow :: "runtime \<Rightarrow> app \<Rightarrow> app" where
  "runWorkflow rt st =
     (if Some ''gemini'' \<in> set (requiredProviders (agents st)) \<and> \<not> isGeminiKeySet st then
        st\<lparr>apiKeyError := ''A Gemini API key is required for this workflow.'',
           isApiKeyModalOpen := True\<rparr>
      else if Some ''openai'' \<in> set (requiredProviders (agents st)) \<and> \<not> isOpenAIKeySet st then
        st\<lparr>apiKeyError := ''An OpenAI API key is required for this workflow.'',
           isApiKeyModalOpen := True\<rparr>
      else
        (let st0 = st\<lparr>isProcessing := True, analysisResult := None,
                      agents := map reset_agent (agents st)\<rparr>;
             st1 = workflow_loop
                     (\<lambda>i agent. unifiedProcessAgentPrompt rt st i agent (content (documentFile st)))
                     (\<lambda>i agent. unified_requests st i agent (content (documentFile st)))
                     (parseJsonOutput (JSON_parse rt)) on_key_error 0 (agents st) st0
         in st1\<lparr>isProcessing := False\<rparr>))"

text \<open>
  Revision \<open>part002\<close> (lines 275-316) is the same text with one more statement after the
  loop, \<^verbatim>\<open>analyzeResults(currentAgents)\<close>. An exception of the aggregator is not caught:
  it ends the callback before \<^verbatim>\<open>setIsProcessing(false)\<close>.
\<close>

definition runWorkflow_part002 :: "runtime \<Rightarrow> app \<Rightarrow> app" where
  "runWorkflow_part002 rt st =
     (if Some ''gemini'' \<in> set (requiredProviders (agents st)) \<and> \<not> isGeminiKeySet st then
        st\<lparr>apiKeyError := ''A Gemini API key is required for this workflow.'',
           isApiKeyModalOpen := True\<rparr>
      else if Some ''openai'' \<in> set (requiredProviders (agents st)) \<and> \<not> isOpenAIKeySet st then
        st\<lparr>apiKeyError := ''An OpenAI API key is required for this workflow.'',
           isApiKeyModalOpen := True\<rparr>
      else
        (let st0 = st\<lparr>isProcessing := True, analysisResult := None,
                      agents := map reset_agent (agents st)\<rparr>;
             st1 = workflow_loop
                     (\<lambda>i agent. unifiedProcessAgentPrompt rt st i agent (content (documentFile st)))
                     (\<lambda>i agent. unified_requests st i agent (content (documentFile st)))
                     (parseJsonOutput (JSON_parse rt)) on_key_error 0 (agents st) st0
         in case analyzeResults (agents st1) st1 of
              Inl t \<Rightarrow> st1\<lparr>rejection := Some t\<rparr>
            | Inr st2 \<Rightarrow> st2\<lparr>isProcessing := False\<rparr>))"

text \<open>
  Revision \<open>part001\<close> (lines 258-293) checks the key, then the document:
  \<^verbatim>\<open>
  if (!isApiKeySet) {
      setApiKeyError("Please set your API key before running the workflow.");
      return;
  }
  if (!documentFile.content || documentFile.type === DocumentType.EMPTY) {
    alert("Please load a document first.");
    return;
  }
  \<close>
  and goes on as revision \<open>part002\<close> does, with its own provider call and extractor.
\<close>

definition runWorkflow_part001 :: "runtime \<Rightarrow> app \<Rightarrow> app" where
  "runWorkflow_part001 rt st =
     (if \<not> isGeminiKeySet st then
        st\<lparr>apiKeyError := ''Please set your API key before running the workflow.''\<rparr>
      else if content (documentFile st) = [] \<or> doc_type (documentFile st) = EMPTY then
        st\<lparr>alerts := alerts st @ [''Please load a document first.'']\<rparr>
      else
        (let st0 = st\<lparr>isProcessing := True, analysisResult := None,
                      agents := map reset_agent (agents st)\<rparr>;
             st1 = workflow_loop
                     (\<lambda>i agent. processAgentPrompt_part001 rt st i (prompt agent)
                                    (content (documentFile st)))
                     (\<lambda>i agent. requests_part001 st i (prompt agent) (content (documentFile st)))
                     (parseJsonOutput_part001 (JSON_parse rt)) on_key_error_part001 0 (agents st) st0
         in case analyzeResults (agents st1) st1 of
              Inl t \<Rightarrow> st1\<lparr>rejection := Some t\<rparr>
            | Inr st2 \<Rightarrow> st2\<lparr>isProcessing := False\<rparr>))"


section \<open>Notions used in the statements\<close>

text \<open>
  The run refuses to start: the condition of the first or the second \<^verbatim>\<open>return\<close> of
  \<^verbatim>\<open>runWorkflow\<close> holds (\<^verbatim>\<open>src/App.tsx\<close> and revision \<open>part002\<close>; revision \<open>part001\<close>).
\<close>

definition refuses :: "app \<Rightarrow> bool" where
  "refuses st =
     ((Some ''gemini'' \<in> set (requiredProviders (agents st)) \<and> \<not> isGeminiKeySet st)
      \<or> (Some ''openai'' \<in> set (requiredProviders (agents st)) \<and> \<not> isOpenAIKeySet st))"

definition refuses_part001 :: "app \<Rightarrow> bool" where
  "refuses_part001 st =
     (\<not> isGeminiKeySet st \<or> content (documentFile st) = [] \<or> doc_type (documentFile st) = EMPTY)"

text \<open>The requests made between the state \<open>st\<close> and the later state \<open>st'\<close>.\<close>

definition new_requests :: "app \<Rightarrow> app \<Rightarrow> request list" where
  "new_requests st st' = drop (length (requests st)) (requests st')"

text \<open>
  The outcomes of the steps the loop runs, in order: it goes on after a step that
  returns and stops after the first step that throws.
\<close>

fun loop_trace ::
  "(nat \<Rightarrow> Agent \<Rightarrow> thrown + string) \<Rightarrow> (string \<Rightarrow> thrown + json) \<Rightarrow> nat \<Rightarrow> Agent list
     \<Rightarrow> (thrown + (string \<times> json)) list" where
  "loop_trace call parse_output i [] = []"
| "loop_trace call parse_output i (agent # rest) =
     (case try_step call parse_output i agent of
        Inr r \<Rightarrow> Inr r # loop_trace call parse_output (Suc i) rest
      | Inl e \<Rightarrow> [Inl e])"

definition error_message :: "thrown \<Rightarrow> string" where
  "error_message e = (if instanceof_Error e then message e else ''An unknown error occurred'')"

text \<open>What a step's outcome writes into the agent it ran.\<close>

fun apply_outcome :: "thrown + (string \<times> json) \<Rightarrow> Agent \<Rightarrow> Agent" where
  "apply_outcome (Inr (response, j)) c =
     c\<lparr>status := Success, agent_output := Some response, outputJson := j\<rparr>"
| "apply_outcome (Inl e) c = c\<lparr>status := Error, error := Some (error_message e)\<rparr>"


text \<open>
  Where a regular expression can match. \<open>fenced_at s\<close>: \<open>s\<close> begins with the opening fence
  and a closing fence follows somewhere. \<open>span_at opening closing s\<close>: \<open>s\<close> begins with the
  opening bracket and the closing bracket follows somewhere. \<open>matches_at s\<close>: one of the
  three alternatives of revision \<open>part001\<close> can match at the beginning of \<open>s\<close>.
\<close>

definition fenced_at :: "string \<Rightarrow> bool" where
  "fenced_at s = (prefix fence_open s \<and> sublist fence_close (drop (length fence_open) s))"

definition span_at :: "char \<Rightarrow> char \<Rightarrow> string \<Rightarrow> bool" where
  "span_at opening closing s =
     (case s of [] \<Rightarrow> False | x # rest \<Rightarrow> x = opening \<and> closing \<in> set rest)"

definition matches_at :: "string \<Rightarrow> bool" where
  "matches_at s = (fenced_at s \<or> span_at CHR ''{'' CHR ''}'' s \<or> span_at CHR ''['' CHR '']'' s)"

text \<open>
  The candidate as the specification words it, for comparison with the code: the
  interior of a fenced \<^verbatim>\<open>json\<close> block; else the first balanced top-level object or array
  literal anywhere in the text; else the entire text. \<open>balanced_end d s\<close> reads \<open>s\<close> with
  \<open>d\<close> brackets open and returns the text up to the bracket that closes the last of them.
\<close>

fun balanced_end :: "nat \<Rightarrow> string \<Rightarrow> string option" where
  "balanced_end d [] = None"
| "balanced_end d (c # cs) =
     (if c = CHR ''{'' \<or> c = CHR ''['' then map_option ((#) c) (balanced_end (Suc d) cs)
      else if c = CHR ''}'' \<or> c = CHR '']'' then
        (if d \<le> 1 then Some [c] else map_option ((#) c) (balanced_end (d - 1) cs))
      else map_option ((#) c) (balanced_end d cs))"

fun first_balanced :: "string \<Rightarrow> string option" where
  "first_balanced [] = None"
| "first_balanced (c # cs) =
     (if c = CHR ''{'' \<or> c = CHR ''[''
      then (case balanced_end 1 cs of Some r \<Rightarrow> Some (c # r) | None \<Rightarrow> first_balanced cs)
      else first_balanced cs)"

definition spec_candidate :: "string \<Rightarrow> string" where
  "spec_candidate input =
     (case match_fence input of
        Some g \<Rightarrow> g
      | None \<Rightarrow> (case first_balanced input of Some l \<Rightarrow> l | None \<Rightarrow> input))"


section \<open>Properties of the extractor\<close>

lemma find_first_append:
  "pat \<noteq> [] \<Longrightarrow> hd pat \<notin> set s \<Longrightarrow> find_first pat (s @ pat @ post) = Some (s, post)"
proof (induction s)
  case Nil
  then obtain p ps where "pat = p # ps" by (cases pat) auto
  then show ?case by simp
next
  case (Cons x s)
  then obtain p ps where pat: "pat = p # ps" by (cases pat) auto
  with Cons.prems have "x \<noteq> p" by auto
  then have "\<not> prefix pat (x # s @ pat @ post)" by (simp add: pat)
  with Cons show ?case by simp
qed

lemma alt_fence_fenced:
  assumes "CHR ''\<newline>'' \<notin> set s"
  shows "alt_fence (fence_open @ s @ fence_close @ post) = Some s"
proof -
  have "find_first fence_close (s @ fence_close @ post) = Some (s, post)"
    using assms by (intro find_first_append) (simp_all add: fence_close_def)
  then show ?thesis by (simp add: alt_fence_def)
qed

lemma match_fence_fenced:
  assumes "CHR ''\<newline>'' \<notin> set s"
  shows "match_fence (fence_open @ s @ fence_close @ post) = Some s"
proof -
  obtain c cs where "fence_open @ s @ fence_close @ post = c # cs"
    by (simp add: fence_open_def)
  then show ?thesis using alt_fence_fenced [OF assms, of post] by simp
qed

lemma match_part001_fenced:
  assumes "CHR ''\<newline>'' \<notin> set s"
  shows "match_part001 (fence_open @ s @ fence_close @ post) = Some (Some s, None, None)"
proof -
  obtain c cs where "fence_open @ s @ fence_close @ post = c # cs"
    by (simp add: fence_open_def)
  then show ?thesis using alt_fence_fenced [OF assms, of post] by simp
qed

text \<open>
  Claim C3. \<^verbatim>\<open>parseJsonOutput\<close> never raises and returns the parsed value or \<^verbatim>\<open>null\<close>: in
  both revisions every call returns a value (\<open>Inr\<close>, never an exception \<open>Inl\<close>); when
  \<^verbatim>\<open>JSON.parse\<close> accepts the one candidate that was chosen, the call returns the value
  \<^verbatim>\<open>JSON.parse\<close> gave for it; and when \<^verbatim>\<open>JSON.parse\<close> throws on that candidate the call
  returns \<^verbatim>\<open>null\<close>, whatever \<^verbatim>\<open>JSON.parse\<close> would make of any other part of the text: no
  other candidate is tried.
\<close>

theorem parseJsonOutput_never_raises:
  "(\<exists>v. parseJsonOutput parse text = Inr v)
   \<and> (\<forall>v. parse (parseJsonOutput_arg text) = Inr v \<longrightarrow> parseJsonOutput parse text = Inr v)
   \<and> (\<forall>e. parse (parseJsonOutput_arg text) = Inl e \<longrightarrow> parseJsonOutput parse text = Inr JNull)
   \<and> (\<exists>v. parseJsonOutput_part001 parse text = Inr v)
   \<and> (\<forall>v. parse (parseJsonOutput_part001_arg text) = Inr v
         \<longrightarrow> parseJsonOutput_part001 parse text = Inr v)
   \<and> (\<forall>e. parse (parseJsonOutput_part001_arg text) = Inl e
         \<longrightarrow> parseJsonOutput_part001 parse text = Inr JNull)"
  by (simp add: parseJsonOutput_def parseJsonOutput_part001_def split: sum.splits)

text \<open>
  Two instances, for a parser that accepts the text \<^verbatim>\<open>{}\<close> only. In the first the
  fenced block holds \<^verbatim>\<open>nope\<close>, which does not parse, and the call returns \<^verbatim>\<open>null\<close>
  although \<^verbatim>\<open>{}\<close> stands later in the text. In the second the fenced block holds \<^verbatim>\<open>{}\<close>
  and the call returns the parsed object.
\<close>

theorem parseJsonOutput_never_raises_witness:
  "(\<lambda>s. if s = ''{}'' then Inr (JObject []) else Inl (JsError ''SyntaxError''))
      (parseJsonOutput_arg ''```json\<newline>nope\<newline>``` {}'') = Inl (JsError ''SyntaxError'')
   \<and> parseJsonOutput (\<lambda>s. if s = ''{}'' then Inr (JObject []) else Inl (JsError ''SyntaxError''))
        ''```json\<newline>nope\<newline>``` {}'' = Inr JNull
   \<and> (\<lambda>s. if s = ''{}'' then Inr (JObject []) else Inl (JsError ''SyntaxError''))
      (parseJsonOutput_part001_arg ''```json\<newline>nope\<newline>``` {}'') = Inl (JsError ''SyntaxError'')
   \<and> parseJsonOutput_part001 (\<lambda>s. if s = ''{}'' then Inr (JObject []) else Inl (JsError ''SyntaxError''))
        ''```json\<newline>nope\<newline>``` {}'' = Inr JNull
   \<and> (\<lambda>s. if s = ''{}'' then Inr (JObject []) else Inl (JsError ''SyntaxError''))
      (parseJsonOutput_arg ''```json\<newline>{}\<newline>``` nope'') = Inr (JObject [])
   \<and> parseJsonOutput (\<lambda>s. if s = ''{}'' then Inr (JObject []) else Inl (JsError ''SyntaxError''))
        ''```json\<newline>{}\<newline>``` nope'' = Inr (JObject [])
   \<and> (\<lambda>s. if s = ''{}'' then Inr (JObject []) else Inl (JsError ''SyntaxError''))
      (parseJsonOutput_part001_arg ''```json\<newline>{}\<newline>``` nope'') = Inr (JObject [])
   \<and> parseJsonOutput_part001 (\<lambda>s. if s = ''{}'' then Inr (JObject []) else Inl (JsError ''SyntaxError''))
        ''```json\<newline>{}\<newline>``` nope'' = Inr (JObject [])"
proof -
  have a: "parseJsonOutput_arg ''```json\<newline>nope\<newline>``` {}'' = ''nope''"
    by (simp add: parseJsonOutput_arg_def alt_fence_def fence_open_def fence_close_def)
  have b: "parseJsonOutput_part001_arg ''```json\<newline>nope\<newline>``` {}'' = ''nope''"
    by (simp add: parseJsonOutput_part001_arg_def alt_fence_def fence_open_def fence_close_def
        js_or_def)
  have c: "parseJsonOutput_arg ''```json\<newline>{}\<newline>``` nope'' = ''{}''"
    by (simp add: parseJsonOutput_arg_def alt_fence_def fence_open_def fence_close_def)
  have d: "parseJsonOutput_part001_arg ''```json\<newline>{}\<newline>``` nope'' = ''{}''"
    by (simp add: parseJsonOutput_part001_arg_def alt_fence_def fence_open_def fence_close_def
        js_or_def)
  show ?thesis
    using parseJsonOutput_never_raises
      [of "\<lambda>s. if s = ''{}'' then Inr (JObject []) else Inl (JsError ''SyntaxError'')"
          "''```json\<newline>nope\<newline>``` {}''"]
      parseJsonOutput_never_raises
      [of "\<lambda>s. if s = ''{}'' then Inr (JObject []) else Inl (JsError ''SyntaxError'')"
          "''```json\<newline>{}\<newline>``` nope''"]
    by (simp add: a b c d)
qed

text \<open>
  Claim C7. Round trip: let \<open>stringify v\<close> be the text \<^verbatim>\<open>JSON.stringify(v)\<close> of a JSON value
  \<open>v\<close>. \<^verbatim>\<open>JSON.stringify\<close> and \<^verbatim>\<open>JSON.parse\<close> belong to the runtime; what is used of them
  is that the text parses back to \<open>v\<close>, that it is not empty, and that it holds no line
  feed (\<^verbatim>\<open>JSON.stringify\<close> without an indentation argument writes a line feed inside a
  string as the two characters \<^verbatim>\<open>\n\<close> and puts none between tokens). Then both revisions
  of \<^verbatim>\<open>parseJsonOutput\<close> return \<open>v\<close> on the text wrapped in a fenced \<^verbatim>\<open>json\<close> block.
\<close>

theorem extractJson_roundtrip:
  assumes "parse (stringify v) = Inr v"
    and "CHR ''\<newline>'' \<notin> set (stringify v)"
    and "stringify v \<noteq> []"
  shows "parseJsonOutput parse (''```json\<newline>'' @ stringify v @ ''\<newline>```'') = Inr v
       \<and> parseJsonOutput_part001 parse (''```json\<newline>'' @ stringify v @ ''\<newline>```'') = Inr v"
proof -
  let ?text = "''```json\<newline>'' @ stringify v @ ''\<newline>```''"
  have txt_eq: "?text = fence_open @ stringify v @ fence_close @ []"
    by (simp add: fence_open_def fence_close_def)
  have "match_fence ?text = Some (stringify v)"
    unfolding txt_eq by (rule match_fence_fenced [OF assms(2)])
  then have a: "parseJsonOutput_arg ?text = stringify v"
    by (simp add: parseJsonOutput_arg_def)
  have "match_part001 ?text = Some (Some (stringify v), None, None)"
    unfolding txt_eq by (rule match_part001_fenced [OF assms(2)])
  then have b: "parseJsonOutput_part001_arg ?text = stringify v"
    using assms(3) by (simp add: parseJsonOutput_part001_arg_def js_or_def)
  show ?thesis
    unfolding parseJsonOutput_def parseJsonOutput_part001_def a b using assms(1) by simp
qed

theorem extractJson_roundtrip_witness:
  "(\<lambda>s. if s = ''{}'' then Inr (JObject []) else Inl (JsError ''SyntaxError''))
      ((\<lambda>v. ''{}'') (JObject [])) = Inr (JObject [])
   \<and> CHR ''\<newline>'' \<notin> set ((\<lambda>v::json. ''{}'') (JObject []))
   \<and> (\<lambda>v::json. ''{}'') (JObject []) \<noteq> []
   \<and> parseJsonOutput (\<lambda>s. if s = ''{}'' then Inr (JObject []) else Inl (JsError ''SyntaxError''))
        ''```json\<newline>{}\<newline>```'' = Inr (JObject [])
   \<and> parseJsonOutput_part001
        (\<lambda>s. if s = ''{}'' then Inr (JObject []) else Inl (JsError ''SyntaxError''))
        ''```json\<newline>{}\<newline>```'' = Inr (JObject [])"
  using extractJson_roundtrip
    [of "\<lambda>s. if s = ''{}'' then Inr (JObject []) else Inl (JsError ''SyntaxError'')"
        "\<lambda>v. ''{}''" "JObject []"]
  by simp

section \<open>Properties of the run loop\<close>

lemma update_by_id_unique:
  assumes "distinct (map agent_id (pre @ c # post))"
  shows "update_by_id (agent_id c) f (pre @ c # post) = pre @ f c # post"
proof -
  from assms have "agent_id c \<notin> agent_id ` set pre" and "agent_id c \<notin> agent_id ` set post"
    by auto
  then have "\<forall>x \<in> set pre. agent_id x \<noteq> agent_id c" and "\<forall>x \<in> set post. agent_id x \<noteq> agent_id c"
    by (metis imageI)+
  then have "map (\<lambda>a. if agent_id a = agent_id c then f a else a) pre = pre"
    and "map (\<lambda>a. if agent_id a = agent_id c then f a else a) post = post"
    by (simp_all add: map_idI)
  then show ?thesis by (simp add: update_by_id_def)
qed

lemma length_loop_trace: "length (loop_trace call po i rest) \<le> length rest"
  by (induction rest arbitrary: i) (auto split: sum.splits)

lemma workflow_loop_agents:
  assumes "distinct (map agent_id (agents st))"
    and "agents st = pre @ cs"
    and "map agent_id cs = map agent_id rest"
  shows "agents (workflow_loop call sent po oke i rest st) =
           pre @ map2 apply_outcome (loop_trace call po i rest)
                   (take (length (loop_trace call po i rest)) cs)
               @ drop (length (loop_trace call po i rest)) cs"
  using assms
proof (induction rest arbitrary: i st pre cs)
  case Nil
  then show ?case by simp
next
  case (Cons a rest)
  from Cons.prems(3) obtain c cs' where cs: "cs = c # cs'" and idc: "agent_id c = agent_id a"
    and ids: "map agent_id cs' = map agent_id rest"
    by (cases cs) auto
  have d: "distinct (map agent_id (pre @ c # cs'))"
    using Cons.prems(1,2) cs by simp
  have upd: "update_by_id (agent_id a) f (pre @ c0 # cs') = pre @ f c0 # cs'"
    if "agent_id c0 = agent_id a" for f c0
  proof -
    have "distinct (map agent_id (pre @ c0 # cs'))" using d that idc by simp
    from update_by_id_unique [OF this] that show ?thesis by simp
  qed
  show ?case
  proof (cases "try_step call po i a")
    case (Inl e)
    then show ?thesis
      using Cons.prems(2) cs idc
      by (simp add: Let_def error_message_def upd)
  next
    case (Inr r)
    obtain response j where r: "r = (response, j)" by (cases r)
    let ?c' = "c\<lparr>status := Success, agent_output := Some response, outputJson := j\<rparr>"
    let ?st' = "st\<lparr>agents := update_by_id (agent_id a) (\<lambda>a. a\<lparr>status := Running\<rparr>) (agents st),
                     requests := requests st @ sent i a,
                     agents := pre @ ?c' # cs'\<rparr>"
    have step: "workflow_loop call sent po oke i (a # rest) st
                  = workflow_loop call sent po oke (Suc i) rest ?st'"
      using Inr r Cons.prems(2) cs idc by (simp add: Let_def upd)
    have "agents (workflow_loop call sent po oke (Suc i) rest ?st') =
            (pre @ [?c']) @ map2 apply_outcome (loop_trace call po (Suc i) rest)
                   (take (length (loop_trace call po (Suc i) rest)) cs')
               @ drop (length (loop_trace call po (Suc i) rest)) cs'"
      using d ids by (intro Cons.IH) simp_all
    then show ?thesis
      unfolding step using Inr r cs by simp
  qed
qed

lemma workflow_loop_requests:
  "requests (workflow_loop call sent po oke i rest st) =
     requests st @ concat (map2 sent [i ..< i + length (loop_trace call po i rest)]
                              (take (length (loop_trace call po i rest)) rest))"
  if "\<And>m s. requests (oke m s) = requests s"
  using that
proof (induction rest arbitrary: i st)
  case Nil
  then show ?case by simp
next
  case (Cons a rest)
  show ?case
  proof (cases "try_step call po i a")
    case (Inl e)
    then show ?thesis using Cons.prems by (simp add: Let_def)
  next
    case (Inr r)
    obtain response j where r: "r = (response, j)" by (cases r)
    show ?thesis
      using Inr r Cons.prems
      by (simp add: Let_def Cons.IH upt_conv_Cons del: upt_Suc)
  qed
qed

lemma loop_trace_Inr:
  "Suc j < length (loop_trace call po i rest) \<Longrightarrow> \<exists>r. loop_trace call po i rest ! j = Inr r"
proof (induction rest arbitrary: i j)
  case Nil
  then show ?case by simp
next
  case (Cons a rest)
  show ?case
  proof (cases "try_step call po i a")
    case (Inl e)
    with Cons.prems show ?thesis by simp
  next
    case (Inr r)
    with Cons show ?thesis by (cases j) auto
  qed
qed

lemma status_apply_outcome:
  "status (apply_outcome x c) = Error \<Longrightarrow> \<exists>e. x = Inl e"
  by (cases x) auto

lemma agent_id_reset_comp [simp]: "agent_id \<circ> reset_agent = agent_id"
  by (simp add: fun_eq_iff reset_agent_def)

lemma loop_error_stops:
  assumes d: "distinct (map agent_id as)"
    and st0: "agents st0 = map reset_agent as"
    and k: "k < length as"
    and err: "status (agents (workflow_loop call sent po oke 0 as st0) ! k) = Error"
  shows "length (loop_trace call po 0 as) = Suc k"
    and "\<forall>j. k < j \<and> j < length as
           \<longrightarrow> agents (workflow_loop call sent po oke 0 as st0) ! j = reset_agent (as ! j)"
proof -
  let ?tr = "loop_trace call po 0 as"
  let ?n = "length ?tr"
  let ?cs = "map reset_agent as"
  let ?done = "map2 apply_outcome ?tr (take ?n ?cs)"
  have n: "?n \<le> length as" by (rule length_loop_trace)
  have ids: "map agent_id ?cs = map agent_id as" by simp
  have d0: "distinct (map agent_id (agents st0))" using d st0 by simp
  have "agents (workflow_loop call sent po oke 0 as st0) = [] @ ?done @ drop ?n ?cs"
    using d0 ids st0 by (intro workflow_loop_agents) simp_all
  then have ag: "agents (workflow_loop call sent po oke 0 as st0) = ?done @ drop ?n ?cs"
    by simp
  have len: "length ?done = ?n" using n by simp
  have tail: "(?done @ drop ?n ?cs) ! j = reset_agent (as ! j)" if "?n \<le> j" "j < length as" for j
    using that len by (simp add: nth_append)
  have kn: "k < ?n"
  proof (rule ccontr)
    assume "\<not> k < ?n"
    then have "status ((?done @ drop ?n ?cs) ! k) = Pending"
      using tail [of k] k by (simp add: reset_agent_def)
    with err ag show False by simp
  qed
  then have "(?done @ drop ?n ?cs) ! k = apply_outcome (?tr ! k) (?cs ! k)"
    using len n k by (simp add: nth_append)
  with err ag obtain e where "?tr ! k = Inl e"
    using status_apply_outcome by metis
  with loop_trace_Inr [of k call po 0 as] have "\<not> Suc k < ?n" by auto
  with kn show "?n = Suc k" by simp
  then show "\<forall>j. k < j \<and> j < length as
           \<longrightarrow> agents (workflow_loop call sent po oke 0 as st0) ! j = reset_agent (as ! j)"
    using tail ag by simp
qed

lemma requests_on_key_error [simp]: "requests (on_key_error m s) = requests s"
  by (simp add: on_key_error_def Let_def)

lemma requests_on_key_error_part001 [simp]: "requests (on_key_error_part001 m s) = requests s"
  by (simp add: on_key_error_part001_def)

lemma concat_map2_steps:
  assumes "\<And>i a r. r \<in> set (sent i a) \<Longrightarrow> r_step r = i"
    and "r \<in> set (concat (map2 sent [i ..< i + n] xs))"
  shows "i \<le> r_step r \<and> r_step r < i + n"
proof -
  from assms(2) obtain p where "p \<in> set (zip [i ..< i + n] xs)" and "r \<in> set (sent (fst p) (snd p))"
    by (auto simp: case_prod_unfold)
  moreover then have "fst p \<in> set [i ..< i + n]" by (metis in_set_zipE prod.collapse)
  ultimately show ?thesis using assms(1) by auto
qed

lemma runWorkflow_started:
  assumes "\<not> refuses st"
  shows "runWorkflow rt st =
     (workflow_loop
        (\<lambda>i agent. unifiedProcessAgentPrompt rt st i agent (content (documentFile st)))
        (\<lambda>i agent. unified_requests st i agent (content (documentFile st)))
        (parseJsonOutput (JSON_parse rt)) on_key_error 0 (agents st)
        (st\<lparr>isProcessing := True, analysisResult := None,
            agents := map reset_agent (agents st)\<rparr>))\<lparr>isProcessing := False\<rparr>"
  using assms by (auto simp: runWorkflow_def refuses_def Let_def)

lemma unified_requests_step: "r \<in> set (unified_requests st i a doc) \<Longrightarrow> r_step r = i"
  by (auto simp: unified_requests_def Let_def split: if_splits)

lemma analyzeResults_frame:
  assumes "analyzeResults xs s = Inr s'"
  shows "agents s' = agents s" and "requests s' = requests s"
  using assms by (auto simp: analyzeResults_def Let_def split: sum.splits if_splits)

lemma runWorkflow_part002_started:
  assumes "\<not> refuses st"
  shows "agents (runWorkflow_part002 rt st) = agents (runWorkflow rt st)"
    and "requests (runWorkflow_part002 rt st) = requests (runWorkflow rt st)"
  using assms
  by (auto simp: runWorkflow_part002_def runWorkflow_def refuses_def Let_def
      split: sum.splits dest: analyzeResults_frame)

lemma runWorkflow_part001_started:
  fixes rt :: runtime and st :: app
  assumes "\<not> refuses_part001 st"
  defines "fin \<equiv> workflow_loop
        (\<lambda>i agent. processAgentPrompt_part001 rt st i (prompt agent) (content (documentFile st)))
        (\<lambda>i agent. requests_part001 st i (prompt agent) (content (documentFile st)))
        (parseJsonOutput_part001 (JSON_parse rt)) on_key_error_part001 0 (agents st)
        (st\<lparr>isProcessing := True, analysisResult := None,
            agents := map reset_agent (agents st)\<rparr>)"
  shows "agents (runWorkflow_part001 rt st) = agents fin"
    and "requests (runWorkflow_part001 rt st) = requests fin"
  using assms(1) unfolding fin_def
  by (auto simp: runWorkflow_part001_def refuses_part001_def Let_def
      split: sum.splits dest: analyzeResults_frame)

lemma requests_part001_step: "r \<in> set (requests_part001 st i p doc) \<Longrightarrow> r_step r = i"
  by (auto simp: requests_part001_def split: if_splits)

lemma loop_error_requests:
  assumes "\<And>i a r. r \<in> set (sent i a) \<Longrightarrow> r_step r = i"
    and "\<And>m s. requests (oke m s) = requests s"
    and "length (loop_trace call po 0 as) = Suc k"
    and "requests st0 = requests st"
  shows "\<forall>r \<in> set (new_requests st (workflow_loop call sent po oke 0 as st0)). r_step r \<le> k"
proof -
  have "requests (workflow_loop call sent po oke 0 as st0) =
      requests st0 @ concat (map2 sent [0 ..< 0 + length (loop_trace call po 0 as)]
          (take (length (loop_trace call po 0 as)) as))"
    by (rule workflow_loop_requests) (rule assms(2))
  then have "new_requests st (workflow_loop call sent po oke 0 as st0) =
      concat (map2 sent [0 ..< 0 + Suc k] (take (Suc k) as))"
    using assms(3,4) by (simp add: new_requests_def)
  then show ?thesis
    using concat_map2_steps [of sent _ 0 "Suc k" "take (Suc k) as"] assms(1)
    by (metis (no_types, lifting) add_0 less_Suc_eq_le)
qed

text \<open>
  The loop stops at the first error. For a run over agents whose ids are pairwise
  distinct, in each of the three revisions: when a run that starts leaves the agent at
  index \<open>k\<close> in status \<open>Error\<close>, the loop has stopped there. Every agent at a later index
  is exactly what the reset made of it (status \<open>Pending\<close>, no output, no error, no
  \<^verbatim>\<open>outputJson\<close>), and every request the run handed to a provider belongs to a step
  \<open>\<le> k\<close>: no later agent is dispatched.
\<close>

theorem error_stops_the_run:
  assumes "distinct (map agent_id (agents st))" and "k < length (agents st)"
  shows "(\<not> refuses st \<and> status (agents (runWorkflow rt st) ! k) = Error \<longrightarrow>
            (\<forall>j. k < j \<and> j < length (agents st)
                \<longrightarrow> agents (runWorkflow rt st) ! j = (agents st ! j)\<lparr>status := Pending, agent_output := None, error := None,
                                        outputJson := JNull\<rparr>)
          \<and> (\<forall>r \<in> set (new_requests st (runWorkflow rt st)). r_step r \<le> k))
       \<and> (\<not> refuses st \<and> status (agents (runWorkflow_part002 rt st) ! k) = Error \<longrightarrow>
            (\<forall>j. k < j \<and> j < length (agents st)
                \<longrightarrow> agents (runWorkflow_part002 rt st) ! j = (agents st ! j)\<lparr>status := Pending, agent_output := None, error := None,
                                        outputJson := JNull\<rparr>)
          \<and> (\<forall>r \<in> set (new_requests st (runWorkflow_part002 rt st)). r_step r \<le> k))
       \<and> (\<not> refuses_part001 st \<and> status (agents (runWorkflow_part001 rt st) ! k) = Error \<longrightarrow>
            (\<forall>j. k < j \<and> j < length (agents st)
                \<longrightarrow> agents (runWorkflow_part001 rt st) ! j = (agents st ! j)\<lparr>status := Pending, agent_output := None, error := None,
                                        outputJson := JNull\<rparr>)
          \<and> (\<forall>r \<in> set (new_requests st (runWorkflow_part001 rt st)). r_step r \<le> k))"
proof -
  let ?st0 = "st\<lparr>isProcessing := True, analysisResult := None,
                  agents := map reset_agent (agents st)\<rparr>"
  have st0: "agents ?st0 = map reset_agent (agents st)" and rq0: "requests ?st0 = requests st"
    by simp_all
  have main: "(\<forall>j. k < j \<and> j < length (agents st)
                \<longrightarrow> agents (runWorkflow rt st) ! j = reset_agent (agents st ! j))
          \<and> (\<forall>r \<in> set (new_requests st (runWorkflow rt st)). r_step r \<le> k)"
    if nr: "\<not> refuses st" and err: "status (agents (runWorkflow rt st) ! k) = Error"
  proof -
    let ?call = "\<lambda>i agent. unifiedProcessAgentPrompt rt st i agent (content (documentFile st))"
    let ?sent = "\<lambda>i agent. unified_requests st i agent (content (documentFile st))"
    let ?po = "parseJsonOutput (JSON_parse rt)"
    let ?fin = "workflow_loop ?call ?sent ?po on_key_error 0 (agents st) ?st0"
    have run: "runWorkflow rt st = ?fin\<lparr>isProcessing := False\<rparr>"
      by (rule runWorkflow_started [OF nr])
    have err': "status (agents ?fin ! k) = Error" using err run by simp
    note stops = loop_error_stops [OF assms(1) st0 assms(2) err']
    have "\<forall>r \<in> set (new_requests st ?fin). r_step r \<le> k"
      by (rule loop_error_requests [OF unified_requests_step requests_on_key_error stops(1) rq0])
    then show ?thesis using stops(2) run by (simp add: new_requests_def)
  qed
  have p2: "(\<forall>j. k < j \<and> j < length (agents st)
                \<longrightarrow> agents (runWorkflow_part002 rt st) ! j = reset_agent (agents st ! j))
          \<and> (\<forall>r \<in> set (new_requests st (runWorkflow_part002 rt st)). r_step r \<le> k)"
    if nr: "\<not> refuses st" and err: "status (agents (runWorkflow_part002 rt st) ! k) = Error"
    using main nr err runWorkflow_part002_started [OF nr, of rt]
    by (simp add: new_requests_def)
  have p1: "(\<forall>j. k < j \<and> j < length (agents st)
                \<longrightarrow> agents (runWorkflow_part001 rt st) ! j = reset_agent (agents st ! j))
          \<and> (\<forall>r \<in> set (new_requests st (runWorkflow_part001 rt st)). r_step r \<le> k)"
    if nr: "\<not> refuses_part001 st" and err: "status (agents (runWorkflow_part001 rt st) ! k) = Error"
  proof -
    let ?call = "\<lambda>i agent. processAgentPrompt_part001 rt st i (prompt agent) (content (documentFile st))"
    let ?sent = "\<lambda>i agent. requests_part001 st i (prompt agent) (content (documentFile st))"
    let ?po = "parseJsonOutput_part001 (JSON_parse rt)"
    let ?fin = "workflow_loop ?call ?sent ?po on_key_error_part001 0 (agents st) ?st0"
    note run = runWorkflow_part001_started [OF nr, of rt]
    have err': "status (agents ?fin ! k) = Error" using err run(1) by simp
    note stops = loop_error_stops [OF assms(1) st0 assms(2) err']
    have "\<forall>r \<in> set (new_requests st ?fin). r_step r \<le> k"
      by (rule loop_error_requests [OF requests_part001_step requests_on_key_error_part001 stops(1) rq0])
    then show ?thesis using stops(2) run by (simp add: new_requests_def)
  qed
  from main p2 p1 show ?thesis unfolding reset_agent_def by blast
qed

text \<open>
  An instance with two agents added one millisecond apart, a loaded document and a
  provider that fails: the first agent ends in \<open>Error\<close> and the second is left as reset.
\<close>

theorem error_stops_the_run_witness:
  "let st = addAgent 1700000000001 \<lparr>t_name = ''Entity Extractor'', t_prompt = ''List the entities.''\<rparr>
             (addAgent 1700000000000 \<lparr>t_name = ''Summarizer'', t_prompt = ''Summarize.''\<rparr>
               ((initial_app ''env-key'' [] [] [])\<lparr>documentFile := \<lparr>doc_type = TXT, content = ''A report.''\<rparr>\<rparr>));
       rt = \<lparr>JSON_parse = (\<lambda>s. Inl (JsError ''SyntaxError'')),
             generateContent = (\<lambda>i m p. Inl (JsError ''503 Service Unavailable'')),
             chatCompletionsCreate = (\<lambda>i m p. Inr None)\<rparr>
   in distinct (map agent_id (agents st)) \<and> 0 < length (agents st)
      \<and> \<not> refuses st \<and> status (agents (runWorkflow rt st) ! 0) = Error
      \<and> agents (runWorkflow rt st) ! 1 = (agents st ! 1)\<lparr>status := Pending, agent_output := None, error := None, outputJson := JNull\<rparr>
      \<and> \<not> refuses_part001 st \<and> status (agents (runWorkflow_part001 rt st) ! 0) = Error
      \<and> agents (runWorkflow_part001 rt st) ! 1 = (agents st ! 1)\<lparr>status := Pending, agent_output := None, error := None, outputJson := JNull\<rparr>"
proof -
  let ?st = "addAgent 1700000000001 \<lparr>t_name = ''Entity Extractor'', t_prompt = ''List the entities.''\<rparr>
             (addAgent 1700000000000 \<lparr>t_name = ''Summarizer'', t_prompt = ''Summarize.''\<rparr>
               ((initial_app ''env-key'' [] [] [])\<lparr>documentFile := \<lparr>doc_type = TXT, content = ''A report.''\<rparr>\<rparr>))"
  let ?rt = "\<lparr>JSON_parse = (\<lambda>s. Inl (JsError ''SyntaxError'')),
             generateContent = (\<lambda>i m p. Inl (JsError ''503 Service Unavailable'')),
             chatCompletionsCreate = (\<lambda>i m p. Inr None)\<rparr>"
  have h1: "distinct (map agent_id (agents ?st))" by code_simp
  have h2: "0 < length (agents ?st)" by code_simp
  have h3: "\<not> refuses ?st" by code_simp
  have h4: "status (agents (runWorkflow ?rt ?st) ! 0) = Error" by code_simp
  have h5: "\<not> refuses_part001 ?st" by code_simp
  have h6: "status (agents (runWorkflow_part001 ?rt ?st) ! 0) = Error" by code_simp
  have h7: "length (agents ?st) = 2" by code_simp
  from error_stops_the_run [OF h1 h2, of ?rt] h3 h4 h5 h6 h7
  have "agents (runWorkflow ?rt ?st) ! 1 = (agents ?st ! 1)\<lparr>status := Pending, agent_output := None, error := None, outputJson := JNull\<rparr>"
    and "agents (runWorkflow_part001 ?rt ?st) ! 1 = (agents ?st ! 1)\<lparr>status := Pending, agent_output := None, error := None, outputJson := JNull\<rparr>"
    by simp_all
  with h1 h2 h3 h4 h5 h6 show ?thesis unfolding Let_def by blast
qed

text \<open>
  Claim C1 at two agents with the same \<^verbatim>\<open>id\<close>. Two calls of \<^verbatim>\<open>addAgent\<close> in the same
  millisecond give two agents with the same \<^verbatim>\<open>id\<close>. The loop writes a step's outcome into
  every agent whose \<^verbatim>\<open>id\<close> equals the \<^verbatim>\<open>id\<close> of the agent it ran: when the first agent
  fails, the loop stops, one request was made (for step 0), and the second agent, which
  was never dispatched, is left in status \<open>Error\<close> with the first agent's message, not in
  status \<open>Pending\<close>. The three revisions do the same.
\<close>

theorem duplicate_id_spreads_error:
  "let st = addAgent 1700000000000 \<lparr>t_name = ''Entity Extractor'', t_prompt = ''List the entities.''\<rparr>
             (addAgent 1700000000000 \<lparr>t_name = ''Summarizer'', t_prompt = ''Summarize.''\<rparr>
               ((initial_app ''env-key'' [] [] [])\<lparr>documentFile := \<lparr>doc_type = TXT, content = ''A report.''\<rparr>\<rparr>));
       rt = \<lparr>JSON_parse = (\<lambda>s. Inl (JsError ''SyntaxError'')),
             generateContent = (\<lambda>i m p. Inl (JsError ''503 Service Unavailable'')),
             chatCompletionsCreate = (\<lambda>i m p. Inr None)\<rparr>
   in map agent_id (agents st) = [''agent-1700000000000'', ''agent-1700000000000'']
      \<and> map name (agents st) = [''Summarizer'', ''Entity Extractor'']
      \<and> map r_step (new_requests st (runWorkflow rt st)) = [0]
      \<and> map status (agents (runWorkflow rt st)) = [Error, Error]
      \<and> map error (agents (runWorkflow rt st))
          = [Some ''Failed to get response from Gemini API.'',
             Some ''Failed to get response from Gemini API.'']
      \<and> map r_step (new_requests st (runWorkflow_part002 rt st)) = [0]
      \<and> map status (agents (runWorkflow_part002 rt st)) = [Error, Error]
      \<and> map r_step (new_requests st (runWorkflow_part001 rt st)) = [0]
      \<and> map status (agents (runWorkflow_part001 rt st)) = [Error, Error]"
  by code_simp

section \<open>What is sent to the providers\<close>

lemma list_all_upt: "list_all P [0 ..< n] \<longleftrightarrow> (\<forall>k < n. P k)"
  by (auto simp: list_all_iff)

lemma in_concat_map2_upt:
  assumes "r \<in> set (concat (map2 sent [i ..< i + n] xs))"
  shows "\<exists>j. j < n \<and> j < length xs \<and> r \<in> set (sent (i + j) (xs ! j))"
proof -
  from assms obtain p where p: "p \<in> set (zip [i ..< i + n] xs)" and r: "r \<in> set (sent (fst p) (snd p))"
    by (auto simp: case_prod_unfold)
  from p obtain j where "j < length [i ..< i + n]" "j < length xs"
    "p = ([i ..< i + n] ! j, xs ! j)"
    by (auto simp: in_set_zip)
  with r show ?thesis by (intro exI [of _ j]) simp
qed

lemma new_requests_runWorkflow:
  "\<exists>n \<le> length (agents st). new_requests st (runWorkflow rt st) =
     concat (map2 (\<lambda>i agent. unified_requests st i agent (content (documentFile st)))
                  [0 ..< 0 + n] (take n (agents st)))"
proof (cases "refuses st")
  case True
  then have "requests (runWorkflow rt st) = requests st"
    by (auto simp: runWorkflow_def refuses_def)
  then show ?thesis by (intro exI [of _ 0]) (simp add: new_requests_def)
next
  case False
  let ?call = "\<lambda>i agent. unifiedProcessAgentPrompt rt st i agent (content (documentFile st))"
  let ?sent = "\<lambda>i agent. unified_requests st i agent (content (documentFile st))"
  let ?po = "parseJsonOutput (JSON_parse rt)"
  let ?st0 = "st\<lparr>isProcessing := True, analysisResult := None,
                  agents := map reset_agent (agents st)\<rparr>"
  let ?n = "length (loop_trace ?call ?po 0 (agents st))"
  have "requests (workflow_loop ?call ?sent ?po on_key_error 0 (agents st) ?st0) =
      requests ?st0 @ concat (map2 ?sent [0 ..< 0 + ?n] (take ?n (agents st)))"
    by (rule workflow_loop_requests) simp
  then have "new_requests st (runWorkflow rt st) = concat (map2 ?sent [0 ..< 0 + ?n] (take ?n (agents st)))"
    by (simp add: runWorkflow_started [OF False] new_requests_def)
  then show ?thesis using length_loop_trace [of ?call ?po 0 "agents st"] by blast
qed

text \<open>
  The provider call consults the SDKs at the recorded request and nowhere else: two
  runtimes that answer this request alike give the call the same result.
\<close>

lemma unifiedProcessAgentPrompt_reads_request:
  assumes "\<forall>r \<in> set (unified_requests st i a doc).
             generateContent rt i (r_model r) (r_prompt r)
               = generateContent rt' i (r_model r) (r_prompt r)
           \<and> chatCompletionsCreate rt i (r_model r) (r_prompt r)
               = chatCompletionsCreate rt' i (r_model r) (r_prompt r)"
  shows "unifiedProcessAgentPrompt rt st i a doc = unifiedProcessAgentPrompt rt' st i a doc"
  using assms
  by (auto simp: unified_requests_def unifiedProcessAgentPrompt_def Let_def split: if_splits)

lemma unifiedProcessAgentPrompt_reads_prompt:
  assumes "generateContent rt i (element (split_on CHR ''/'' (model a)) 1) (fullPrompt doc (prompt a))
             = generateContent rt' i (element (split_on CHR ''/'' (model a)) 1) (fullPrompt doc (prompt a))"
    and "chatCompletionsCreate rt i (element (split_on CHR ''/'' (model a)) 1) (fullPrompt doc (prompt a))
             = chatCompletionsCreate rt' i (element (split_on CHR ''/'' (model a)) 1) (fullPrompt doc (prompt a))"
  shows "unifiedProcessAgentPrompt rt st i a doc = unifiedProcessAgentPrompt rt' st i a doc"
  using assms by (simp add: unifiedProcessAgentPrompt_def Let_def)

lemma workflow_loop_cong_call:
  assumes "\<forall>j < length rest. call (i + j) (rest ! j) = call' (i + j) (rest ! j)"
  shows "workflow_loop call sent po oke i rest st = workflow_loop call' sent po oke i rest st"
  using assms
proof (induction rest arbitrary: i st)
  case Nil
  show ?case by simp
next
  case (Cons a rest)
  from Cons.prems have h: "call i a = call' i a" by fastforce
  from Cons.prems have "\<forall>j < length rest. call (Suc i + j) (rest ! j) = call' (Suc i + j) (rest ! j)"
    by fastforce
  note IH = Cons.IH [OF this]
  have t: "try_step call po i a = try_step call' po i a"
    by (simp add: try_step_def h)
  show ?case
    unfolding workflow_loop.simps t Let_def
    by (simp add: IH split: sum.splits prod.splits)
qed

lemma runWorkflow_reads_prompts:
  assumes "JSON_parse rt = JSON_parse rt'"
    and "\<forall>k < length (agents st).
            generateContent rt k (element (split_on CHR ''/'' (model (agents st ! k))) 1)
                (fullPrompt (content (documentFile st)) (prompt (agents st ! k)))
              = generateContent rt' k (element (split_on CHR ''/'' (model (agents st ! k))) 1)
                  (fullPrompt (content (documentFile st)) (prompt (agents st ! k)))
            \<and> chatCompletionsCreate rt k (element (split_on CHR ''/'' (model (agents st ! k))) 1)
                (fullPrompt (content (documentFile st)) (prompt (agents st ! k)))
              = chatCompletionsCreate rt' k (element (split_on CHR ''/'' (model (agents st ! k))) 1)
                  (fullPrompt (content (documentFile st)) (prompt (agents st ! k)))"
  shows "runWorkflow rt st = runWorkflow rt' st"
proof -
  let ?call = "\<lambda>rt i agent. unifiedProcessAgentPrompt rt st i agent (content (documentFile st))"
  have "\<forall>j < length (agents st). ?call rt (0 + j) (agents st ! j) = ?call rt' (0 + j) (agents st ! j)"
    using assms(2) by (auto intro!: unifiedProcessAgentPrompt_reads_prompt)
  from workflow_loop_cong_call [of "agents st" "?call rt" 0 "?call rt'", OF this]
  show ?thesis unfolding runWorkflow_def Let_def assms(1) by simp
qed

lemma unified_requests_prompt:
  "r \<in> set (unified_requests st i a doc) \<Longrightarrow> r_prompt r = fullPrompt doc (prompt a)"
  by (auto simp: unified_requests_def Let_def split: if_splits)

lemma unified_requests_unique:
  "r \<in> set (unified_requests st i a doc) \<Longrightarrow> r' \<in> set (unified_requests st i a doc) \<Longrightarrow> r = r'"
  by (auto simp: unified_requests_def Let_def split: if_splits)

lemma new_requests_runWorkflow_elem:
  assumes "r \<in> set (new_requests st (runWorkflow rt st))"
  shows "r_step r < length (agents st)
       \<and> r \<in> set (unified_requests st (r_step r) (agents st ! r_step r) (content (documentFile st)))"
proof -
  from new_requests_runWorkflow [of st rt] obtain n where n: "n \<le> length (agents st)"
    and eq: "new_requests st (runWorkflow rt st) =
       concat (map2 (\<lambda>i agent. unified_requests st i agent (content (documentFile st)))
                  [0 ..< 0 + n] (take n (agents st)))"
    by blast
  from assms [unfolded eq] in_concat_map2_upt
  obtain j where j: "j < n" "r \<in> set (unified_requests st (0 + j) (take n (agents st) ! j) (content (documentFile st)))"
    by meson
  then have "r_step r = j" using unified_requests_step by fastforce
  with j n show ?thesis by simp
qed

text \<open>
  Claim C9, as the code has it. No agent's output is read when a prompt is built:

  \<^item> every request a run of \<^verbatim>\<open>runWorkflow\<close> hands to a provider belongs to an agent of the
    list, and its prompt text is \<open>fullPrompt\<close> of the document content and that agent's own
    prompt;
  \<^item> for two runs from the same state in which the providers answer differently (\<open>rt\<close> and
    \<open>rt'\<close>), so that the earlier agents' outputs differ, the requests made for the same
    step are equal;
  \<^item> the recorded request is what the call hands to the SDK: \<^verbatim>\<open>unifiedProcessAgentPrompt\<close>
    consults the SDKs at the recorded request and nowhere else, so two runtimes that
    answer this request alike give the call the same result;
  \<^item> hence the whole run consults the providers at these prompts only: two runtimes that
    agree, for each agent of the list, on the answer to the prompt built from the
    document and this agent's own prompt (and on \<^verbatim>\<open>JSON.parse\<close>) give the same run,
    whatever they answer to any other prompt, for instance to a prompt holding an
    earlier agent's output.
\<close>

theorem prompt_noninterference:
  "(\<forall>r \<in> set (new_requests st (runWorkflow rt st)).
       r_step r < length (agents st)
       \<and> r_prompt r = fullPrompt (content (documentFile st)) (prompt (agents st ! r_step r)))
   \<and> (\<forall>r \<in> set (new_requests st (runWorkflow rt st)).
        \<forall>r' \<in> set (new_requests st (runWorkflow rt' st)). r_step r = r_step r' \<longrightarrow> r = r')
   \<and> (\<forall>i a doc.
         (\<forall>r \<in> set (unified_requests st i a doc).
             generateContent rt i (r_model r) (r_prompt r)
               = generateContent rt' i (r_model r) (r_prompt r)
             \<and> chatCompletionsCreate rt i (r_model r) (r_prompt r)
                 = chatCompletionsCreate rt' i (r_model r) (r_prompt r))
         \<longrightarrow> unifiedProcessAgentPrompt rt st i a doc = unifiedProcessAgentPrompt rt' st i a doc)
   \<and> (JSON_parse rt = JSON_parse rt'
       \<and> (\<forall>k < length (agents st).
            generateContent rt k (element (split_on CHR ''/'' (model (agents st ! k))) 1)
                (fullPrompt (content (documentFile st)) (prompt (agents st ! k)))
              = generateContent rt' k (element (split_on CHR ''/'' (model (agents st ! k))) 1)
                  (fullPrompt (content (documentFile st)) (prompt (agents st ! k)))
            \<and> chatCompletionsCreate rt k (element (split_on CHR ''/'' (model (agents st ! k))) 1)
                (fullPrompt (content (documentFile st)) (prompt (agents st ! k)))
              = chatCompletionsCreate rt' k (element (split_on CHR ''/'' (model (agents st ! k))) 1)
                  (fullPrompt (content (documentFile st)) (prompt (agents st ! k))))
      \<longrightarrow> runWorkflow rt st = runWorkflow rt' st)"
proof (intro conjI ballI impI allI)
  fix r assume "r \<in> set (new_requests st (runWorkflow rt st))"
  from new_requests_runWorkflow_elem [OF this]
  show "r_step r < length (agents st)"
    and "r_prompt r = fullPrompt (content (documentFile st)) (prompt (agents st ! r_step r))"
    by (auto dest: unified_requests_prompt)
next
  fix r r' assume "r \<in> set (new_requests st (runWorkflow rt st))"
    and "r' \<in> set (new_requests st (runWorkflow rt' st))" and "r_step r = r_step r'"
  with new_requests_runWorkflow_elem [of r st rt] new_requests_runWorkflow_elem [of r' st rt']
  show "r = r'" by (auto intro: unified_requests_unique)
next
  fix i a doc
  assume "\<forall>r \<in> set (unified_requests st i a doc).
             generateContent rt i (r_model r) (r_prompt r)
               = generateContent rt' i (r_model r) (r_prompt r)
             \<and> chatCompletionsCreate rt i (r_model r) (r_prompt r)
                 = chatCompletionsCreate rt' i (r_model r) (r_prompt r)"
  then show "unifiedProcessAgentPrompt rt st i a doc = unifiedProcessAgentPrompt rt' st i a doc"
    by (rule unifiedProcessAgentPrompt_reads_request)
next
  assume "JSON_parse rt = JSON_parse rt'
       \<and> (\<forall>k < length (agents st).
            generateContent rt k (element (split_on CHR ''/'' (model (agents st ! k))) 1)
                (fullPrompt (content (documentFile st)) (prompt (agents st ! k)))
              = generateContent rt' k (element (split_on CHR ''/'' (model (agents st ! k))) 1)
                  (fullPrompt (content (documentFile st)) (prompt (agents st ! k)))
            \<and> chatCompletionsCreate rt k (element (split_on CHR ''/'' (model (agents st ! k))) 1)
                (fullPrompt (content (documentFile st)) (prompt (agents st ! k)))
              = chatCompletionsCreate rt' k (element (split_on CHR ''/'' (model (agents st ! k))) 1)
                  (fullPrompt (content (documentFile st)) (prompt (agents st ! k))))"
  then show "runWorkflow rt st = runWorkflow rt' st"
    using runWorkflow_reads_prompts [of rt rt' st] by blast
qed

text \<open>
  Instances. Two runs whose first agent gets different answers send the same request
  for the second agent. And a provider that would fail on any prompt holding the first
  agent's answer gives the same result at the call for the second agent, and the same
  run, as the provider that answers every prompt: no such prompt is sent.
\<close>

theorem prompt_noninterference_witness:
  "let st = addAgent 1700000000001 \<lparr>t_name = ''Entity Extractor'', t_prompt = ''List the entities.''\<rparr>
             (addAgent 1700000000000 \<lparr>t_name = ''Summarizer'', t_prompt = ''Summarize.''\<rparr>
               ((initial_app ''env-key'' [] [] [])\<lparr>documentFile := \<lparr>doc_type = TXT, content = ''A report.''\<rparr>\<rparr>));
       rt = \<lparr>JSON_parse = (\<lambda>s. Inl (JsError ''SyntaxError'')),
             generateContent = (\<lambda>i m p. Inr ''first answer''),
             chatCompletionsCreate = (\<lambda>i m p. Inr None)\<rparr>;
       rt' = \<lparr>JSON_parse = (\<lambda>s. Inl (JsError ''SyntaxError'')),
             generateContent = (\<lambda>i m p. Inr ''another answer''),
             chatCompletionsCreate = (\<lambda>i m p. Inr None)\<rparr>;
       rt'' = \<lparr>JSON_parse = (\<lambda>s. Inl (JsError ''SyntaxError'')),
             generateContent = (\<lambda>i m p. if js_includes p ''first answer''
                                          then Inl (JsError ''503 Service Unavailable'')
                                          else Inr ''first answer''),
             chatCompletionsCreate = (\<lambda>i m p. Inr None)\<rparr>;
       r = \<lparr>r_step = 1, r_provider = ''gemini'', r_model = Some ''gemini-2.5-flash'',
            r_prompt = ''DOCUMENT CONTENT:\<newline>---\<newline>A report.\<newline>---\<newline>\<newline>TASK:\<newline>List the entities.''\<rparr>
   in agent_output (agents (runWorkflow rt st) ! 0) = Some ''first answer''
      \<and> agent_output (agents (runWorkflow rt' st) ! 0) = Some ''another answer''
      \<and> r \<in> set (new_requests st (runWorkflow rt st))
      \<and> r \<in> set (new_requests st (runWorkflow rt' st))
      \<and> r_prompt r = fullPrompt (content (documentFile st)) (prompt (agents st ! r_step r))
      \<and> list_all (\<lambda>q. list_all (\<lambda>q'. r_step q \<noteq> r_step q' \<or> q = q')
                              (new_requests st (runWorkflow rt' st)))
           (new_requests st (runWorkflow rt st))
      \<and> unified_requests st 1 (agents st ! 1) ''A report.'' = [r]
      \<and> generateContent rt 1 (r_model r) (r_prompt r) = generateContent rt'' 1 (r_model r) (r_prompt r)
      \<and> chatCompletionsCreate rt 1 (r_model r) (r_prompt r)
           = chatCompletionsCreate rt'' 1 (r_model r) (r_prompt r)
      \<and> unifiedProcessAgentPrompt rt st 1 (agents st ! 1) ''A report.''
           = unifiedProcessAgentPrompt rt'' st 1 (agents st ! 1) ''A report.''
      \<and> JSON_parse rt = JSON_parse rt''
      \<and> list_all (\<lambda>k.
            generateContent rt k (element (split_on CHR ''/'' (model (agents st ! k))) 1)
                (fullPrompt (content (documentFile st)) (prompt (agents st ! k)))
              = generateContent rt'' k (element (split_on CHR ''/'' (model (agents st ! k))) 1)
                  (fullPrompt (content (documentFile st)) (prompt (agents st ! k)))
            \<and> chatCompletionsCreate rt k (element (split_on CHR ''/'' (model (agents st ! k))) 1)
                (fullPrompt (content (documentFile st)) (prompt (agents st ! k)))
              = chatCompletionsCreate rt'' k (element (split_on CHR ''/'' (model (agents st ! k))) 1)
                  (fullPrompt (content (documentFile st)) (prompt (agents st ! k))))
          [0 ..< length (agents st)]
      \<and> runWorkflow rt st = runWorkflow rt'' st"
proof -
  let ?st = "addAgent 1700000000001 \<lparr>t_name = ''Entity Extractor'', t_prompt = ''List the entities.''\<rparr>
             (addAgent 1700000000000 \<lparr>t_name = ''Summarizer'', t_prompt = ''Summarize.''\<rparr>
               ((initial_app ''env-key'' [] [] [])\<lparr>documentFile := \<lparr>doc_type = TXT, content = ''A report.''\<rparr>\<rparr>))"
  let ?rt = "\<lparr>JSON_parse = (\<lambda>s. Inl (JsError ''SyntaxError'')),
             generateContent = (\<lambda>i m p. Inr ''first answer''),
             chatCompletionsCreate = (\<lambda>i m p. Inr None)\<rparr>"
  let ?rt' = "\<lparr>JSON_parse = (\<lambda>s. Inl (JsError ''SyntaxError'')),
             generateContent = (\<lambda>i m p. Inr ''another answer''),
             chatCompletionsCreate = (\<lambda>i m p. Inr None)\<rparr>"
  let ?rt'' = "\<lparr>JSON_parse = (\<lambda>s. Inl (JsError ''SyntaxError'')),
             generateContent = (\<lambda>i m p. if js_includes p ''first answer''
                                          then Inl (JsError ''503 Service Unavailable'')
                                          else Inr ''first answer''),
             chatCompletionsCreate = (\<lambda>i m p. Inr None)\<rparr>"
  let ?r = "\<lparr>r_step = 1, r_provider = ''gemini'', r_model = Some ''gemini-2.5-flash'',
            r_prompt = ''DOCUMENT CONTENT:\<newline>---\<newline>A report.\<newline>---\<newline>\<newline>TASK:\<newline>List the entities.''\<rparr>"
  let ?P = "\<lambda>k.
            generateContent ?rt k (element (split_on CHR ''/'' (model (agents ?st ! k))) 1)
                (fullPrompt (content (documentFile ?st)) (prompt (agents ?st ! k)))
              = generateContent ?rt'' k (element (split_on CHR ''/'' (model (agents ?st ! k))) 1)
                  (fullPrompt (content (documentFile ?st)) (prompt (agents ?st ! k)))
            \<and> chatCompletionsCreate ?rt k (element (split_on CHR ''/'' (model (agents ?st ! k))) 1)
                (fullPrompt (content (documentFile ?st)) (prompt (agents ?st ! k)))
              = chatCompletionsCreate ?rt'' k (element (split_on CHR ''/'' (model (agents ?st ! k))) 1)
                  (fullPrompt (content (documentFile ?st)) (prompt (agents ?st ! k)))"
  have h1: "agent_output (agents (runWorkflow ?rt ?st) ! 0) = Some ''first answer''" by code_simp
  have h2: "agent_output (agents (runWorkflow ?rt' ?st) ! 0) = Some ''another answer''" by code_simp
  have h3: "?r \<in> set (new_requests ?st (runWorkflow ?rt ?st))" by code_simp
  have h4: "?r \<in> set (new_requests ?st (runWorkflow ?rt' ?st))" by code_simp
  have h5: "JSON_parse ?rt = JSON_parse ?rt''" by simp
  have l6: "list_all ?P [0 ..< length (agents ?st)]" by code_simp
  then have h6: "\<forall>k < length (agents ?st). ?P k" by (rule iffD1 [OF list_all_upt])
  have h7: "unified_requests ?st 1 (agents ?st ! 1) ''A report.'' = [?r]" by code_simp
  have h8: "generateContent ?rt 1 (r_model ?r) (r_prompt ?r)
              = generateContent ?rt'' 1 (r_model ?r) (r_prompt ?r)" by code_simp
  have h9: "chatCompletionsCreate ?rt 1 (r_model ?r) (r_prompt ?r)
              = chatCompletionsCreate ?rt'' 1 (r_model ?r) (r_prompt ?r)" by simp
  note T = prompt_noninterference [of ?st ?rt ?rt']
  from T [THEN conjunct1] h3
  have c1: "r_prompt ?r = fullPrompt (content (documentFile ?st)) (prompt (agents ?st ! r_step ?r))"
    by blast
  from T [THEN conjunct2, THEN conjunct1]
  have c2: "list_all (\<lambda>q. list_all (\<lambda>q'. r_step q \<noteq> r_step q' \<or> q = q')
                              (new_requests ?st (runWorkflow ?rt' ?st)))
           (new_requests ?st (runWorkflow ?rt ?st))"
    unfolding list_all_iff by blast
  note T2 = prompt_noninterference [of ?st ?rt ?rt'']
  have "\<forall>r \<in> set (unified_requests ?st 1 (agents ?st ! 1) ''A report.'').
             generateContent ?rt 1 (r_model r) (r_prompt r)
               = generateContent ?rt'' 1 (r_model r) (r_prompt r)
             \<and> chatCompletionsCreate ?rt 1 (r_model r) (r_prompt r)
                 = chatCompletionsCreate ?rt'' 1 (r_model r) (r_prompt r)"
    unfolding h7 using h8 h9 by simp
  with T2 [THEN conjunct2, THEN conjunct2, THEN conjunct1]
  have c3: "unifiedProcessAgentPrompt ?rt ?st 1 (agents ?st ! 1) ''A report.''
           = unifiedProcessAgentPrompt ?rt'' ?st 1 (agents ?st ! 1) ''A report.''"
    by blast
  have c4: "runWorkflow ?rt ?st = runWorkflow ?rt'' ?st"
    by (rule T2 [THEN conjunct2, THEN conjunct2, THEN conjunct2, THEN mp]) (intro conjI h5 h6)
  from h1 h2 h3 h4 c1 c2 h7 h8 h9 c3 h5 l6 c4 show ?thesis unfolding Let_def by (intro conjI)
qed

text \<open>
  The last clause of the claim, that the prompt of agent N never contains the output of
  agent N-1, does not hold as worded: the prompt is built without reading that output,
  but it holds the document, and a provider may answer with text the document holds.
  Here the first agent's answer is the document text, and the prompt sent for the
  second agent contains it.
\<close>

theorem prompt_noninterference_counterexample:
  "let st = addAgent 1700000000001 \<lparr>t_name = ''Entity Extractor'', t_prompt = ''List the entities.''\<rparr>
             (addAgent 1700000000000 \<lparr>t_name = ''Summarizer'', t_prompt = ''Summarize.''\<rparr>
               ((initial_app ''env-key'' [] [] [])\<lparr>documentFile := \<lparr>doc_type = TXT, content = ''A report.''\<rparr>\<rparr>));
       rt = \<lparr>JSON_parse = (\<lambda>s. Inl (JsError ''SyntaxError'')),
             generateContent = (\<lambda>i m p. Inr ''A report.''),
             chatCompletionsCreate = (\<lambda>i m p. Inr None)\<rparr>
   in agent_output (agents (runWorkflow rt st) ! 0) = Some ''A report.''
      \<and> map r_step (new_requests st (runWorkflow rt st)) = [0, 1]
      \<and> r_prompt (new_requests st (runWorkflow rt st) ! 1)
          = ''DOCUMENT CONTENT:\<newline>---\<newline>A report.\<newline>---\<newline>\<newline>TASK:\<newline>List the entities.''
      \<and> js_includes (r_prompt (new_requests st (runWorkflow rt st) ! 1))
           (the (agent_output (agents (runWorkflow rt st) ! 0)))"
  by code_simp

section \<open>Credentials\<close>

lemma workflow_loop_env_keys:
  "envGeminiApiKey (workflow_loop call sent po on_key_error i rest st) = envGeminiApiKey st
   \<and> envOpenAIApiKey (workflow_loop call sent po on_key_error i rest st) = envOpenAIApiKey st"
proof (induction rest arbitrary: i st)
  case Nil
  then show ?case by simp
next
  case (Cons a rest)
  show ?case
  proof (cases "try_step call po i a")
    case (Inl e)
    then show ?thesis by (simp add: Let_def on_key_error_def)
  next
    case (Inr r)
    obtain response j where "r = (response, j)" by (cases r)
    with Inr show ?thesis by (simp add: Let_def Cons.IH)
  qed
qed

lemma error_update_by_id:
  assumes "a' \<in> set (update_by_id i (\<lambda>a. a\<lparr>status := Error, error := Some em\<rparr>) xs)"
    and "error a' = Some m" and "\<forall>a \<in> set xs. error a = None"
  shows "m = em"
  using assms by (auto simp: update_by_id_def split: if_splits)

lemma error_None_update_by_id:
  assumes "\<forall>x \<in> set xs. error x = None" and "\<And>a. error (f a) = error a"
  shows "\<forall>x \<in> set (update_by_id i f xs). error x = None"
  using assms by (auto simp: update_by_id_def)

lemma workflow_loop_user_keys:
  assumes "\<forall>a \<in> set (agents st). error a = None"
    and "a' \<in> set (agents (workflow_loop call sent po on_key_error i rest st))"
    and "error a' = Some m"
  shows "userGeminiApiKey (workflow_loop call sent po on_key_error i rest st) =
           (if js_includes m ''API key'' \<and> js_includes (toLowerCase m) ''gemini''
            then [] else userGeminiApiKey st)
       \<and> userOpenAIApiKey (workflow_loop call sent po on_key_error i rest st) =
           (if js_includes m ''API key'' \<and> js_includes (toLowerCase m) ''openai''
            then [] else userOpenAIApiKey st)"
  using assms
proof (induction rest arbitrary: i st)
  case Nil
  then show ?case by auto
next
  case (Cons a rest)
  let ?st1 = "st\<lparr>agents := update_by_id (agent_id a) (\<lambda>a. a\<lparr>status := Running\<rparr>) (agents st),
                   requests := requests st @ sent i a\<rparr>"
  have "\<forall>x \<in> set (update_by_id (agent_id a) (\<lambda>a. a\<lparr>status := Running\<rparr>) (agents st)). error x = None"
    by (rule error_None_update_by_id [OF Cons.prems(1)]) simp
  then have e1: "\<forall>x \<in> set (agents ?st1). error x = None" by simp
  show ?case
  proof (cases "try_step call po i a")
    case (Inl e)
    let ?em = "if instanceof_Error e then message e else ''An unknown error occurred''"
    have "a' \<in> set (update_by_id (agent_id a) (\<lambda>a. a\<lparr>status := Error, error := Some ?em\<rparr>) (agents ?st1))"
      using Cons.prems(2) Inl by (simp add: Let_def split: if_splits)
    from error_update_by_id [OF this Cons.prems(3) e1] have "m = ?em" .
    then show ?thesis using Inl by (simp add: Let_def on_key_error_def)
  next
    case (Inr r)
    obtain response j where r: "r = (response, j)" by (cases r)
    let ?st2 = "?st1\<lparr>agents := update_by_id (agent_id a)
                  (\<lambda>a. a\<lparr>status := Success, agent_output := Some response, outputJson := j\<rparr>)
                  (agents ?st1)\<rparr>"
    have "\<forall>x \<in> set (update_by_id (agent_id a)
                  (\<lambda>a. a\<lparr>status := Success, agent_output := Some response, outputJson := j\<rparr>)
                  (agents ?st1)). error x = None"
      by (rule error_None_update_by_id [OF e1]) simp
    then have e2: "\<forall>x \<in> set (agents ?st2). error x = None" by simp
    have step: "workflow_loop call sent po on_key_error i (a # rest) st =
                workflow_loop call sent po on_key_error (Suc i) rest ?st2"
      using Inr r by (simp add: Let_def)
    from Cons.IH [OF e2, of "Suc i"] Cons.prems(2,3) show ?thesis
      unfolding step by simp
  qed
qed

lemma gemini_invalid_message:
  "js_includes ''The provided Gemini API key is not valid. Please check it.'' ''API key''"
  "js_includes (toLowerCase ''The provided Gemini API key is not valid. Please check it.'') ''gemini''"
  "\<not> js_includes (toLowerCase ''The provided Gemini API key is not valid. Please check it.'') ''openai''"
  by code_simp+

lemma openai_invalid_message:
  "js_includes ''The provided OpenAI API key is not valid. Please check it.'' ''API key''"
  "js_includes (toLowerCase ''The provided OpenAI API key is not valid. Please check it.'') ''openai''"
  "\<not> js_includes (toLowerCase ''The provided OpenAI API key is not valid. Please check it.'') ''gemini''"
  by code_simp+

lemma runWorkflow_env_keys:
  "envGeminiApiKey (runWorkflow rt st) = envGeminiApiKey st
   \<and> envOpenAIApiKey (runWorkflow rt st) = envOpenAIApiKey st"
  by (simp add: runWorkflow_def Let_def workflow_loop_env_keys)

lemma runWorkflow_user_keys:
  assumes "\<not> refuses st" and "a' \<in> set (agents (runWorkflow rt st))" and "error a' = Some m"
  shows "userGeminiApiKey (runWorkflow rt st) =
           (if js_includes m ''API key'' \<and> js_includes (toLowerCase m) ''gemini''
            then [] else userGeminiApiKey st)
       \<and> userOpenAIApiKey (runWorkflow rt st) =
           (if js_includes m ''API key'' \<and> js_includes (toLowerCase m) ''openai''
            then [] else userOpenAIApiKey st)"
proof -
  let ?st0 = "st\<lparr>isProcessing := True, analysisResult := None,
                  agents := map reset_agent (agents st)\<rparr>"
  have e0: "\<forall>a \<in> set (agents ?st0). error a = None" by (simp add: reset_agent_def)
  from workflow_loop_user_keys [OF e0 _ assms(3)] assms(2)
  show ?thesis
    unfolding runWorkflow_started [OF assms(1)] by simp
qed

text \<open>
  Claim C10. A run never changes the keys that came from the environment, so with an
  environment key present the effective key of that provider is the same after the run
  as before it. When a step of a run ends with the invalid-credential error of one
  provider, the stored user key of that provider is cleared and the stored user key of
  the other provider is kept.
\<close>

theorem invalidation_keeps_environment_key:
  "envGeminiApiKey (runWorkflow rt st) = envGeminiApiKey st
   \<and> envOpenAIApiKey (runWorkflow rt st) = envOpenAIApiKey st
   \<and> (envGeminiApiKey st \<noteq> []
        \<longrightarrow> effectiveGeminiApiKey (runWorkflow rt st) = effectiveGeminiApiKey st)
   \<and> (envOpenAIApiKey st \<noteq> []
        \<longrightarrow> effectiveOpenAIApiKey (runWorkflow rt st) = effectiveOpenAIApiKey st)
   \<and> (\<not> refuses st
        \<and> (\<exists>a \<in> set (agents (runWorkflow rt st)).
              error a = Some ''The provided Gemini API key is not valid. Please check it.'')
        \<longrightarrow> userGeminiApiKey (runWorkflow rt st) = []
            \<and> userOpenAIApiKey (runWorkflow rt st) = userOpenAIApiKey st)
   \<and> (\<not> refuses st
        \<and> (\<exists>a \<in> set (agents (runWorkflow rt st)).
              error a = Some ''The provided OpenAI API key is not valid. Please check it.'')
        \<longrightarrow> userOpenAIApiKey (runWorkflow rt st) = []
            \<and> userGeminiApiKey (runWorkflow rt st) = userGeminiApiKey st)"
proof -
  note env = runWorkflow_env_keys [of rt st]
  have g: "userGeminiApiKey (runWorkflow rt st) = []
            \<and> userOpenAIApiKey (runWorkflow rt st) = userOpenAIApiKey st"
    if "\<not> refuses st" "a \<in> set (agents (runWorkflow rt st))"
      "error a = Some ''The provided Gemini API key is not valid. Please check it.''" for a
    using runWorkflow_user_keys [OF that] gemini_invalid_message by simp
  have o: "userOpenAIApiKey (runWorkflow rt st) = []
            \<and> userGeminiApiKey (runWorkflow rt st) = userGeminiApiKey st"
    if "\<not> refuses st" "a \<in> set (agents (runWorkflow rt st))"
      "error a = Some ''The provided OpenAI API key is not valid. Please check it.''" for a
    using runWorkflow_user_keys [OF that] openai_invalid_message by simp
  show ?thesis
    using env g o by (auto simp: effectiveGeminiApiKey_def effectiveOpenAIApiKey_def)
qed

text \<open>
  An instance: Gemini rejects the key; the stored Gemini key is cleared, the stored OpenAI
  key is kept, and the effective Gemini key remains the environment's.
\<close>

theorem invalidation_keeps_environment_key_witness:
  "let st = addAgent 1700000000000 \<lparr>t_name = ''Summarizer'', t_prompt = ''Summarize.''\<rparr>
              ((initial_app ''env-key'' [] ''stored-key'' ''stored-openai-key'')
                 \<lparr>documentFile := \<lparr>doc_type = TXT, content = ''A report.''\<rparr>\<rparr>);
       rt = \<lparr>JSON_parse = (\<lambda>s. Inl (JsError ''SyntaxError'')),
             generateContent = (\<lambda>i m p. Inl (JsError ''[400] API key not valid. Please pass a valid API key.'')),
             chatCompletionsCreate = (\<lambda>i m p. Inr None)\<rparr>
   in envGeminiApiKey st \<noteq> [] \<and> \<not> refuses st
      \<and> (\<exists>a \<in> set (agents (runWorkflow rt st)).
            error a = Some ''The provided Gemini API key is not valid. Please check it.'')
      \<and> userGeminiApiKey st = ''stored-key''
      \<and> userGeminiApiKey (runWorkflow rt st) = []
      \<and> userOpenAIApiKey (runWorkflow rt st) = ''stored-openai-key''
      \<and> effectiveGeminiApiKey (runWorkflow rt st) = effectiveGeminiApiKey st"
proof -
  let ?st = "addAgent 1700000000000 \<lparr>t_name = ''Summarizer'', t_prompt = ''Summarize.''\<rparr>
              ((initial_app ''env-key'' [] ''stored-key'' ''stored-openai-key'')
                 \<lparr>documentFile := \<lparr>doc_type = TXT, content = ''A report.''\<rparr>\<rparr>)"
  let ?rt = "\<lparr>JSON_parse = (\<lambda>s. Inl (JsError ''SyntaxError'')),
             generateContent = (\<lambda>i m p. Inl (JsError ''[400] API key not valid. Please pass a valid API key.'')),
             chatCompletionsCreate = (\<lambda>i m p. Inr None)\<rparr>"
  have h1: "envGeminiApiKey ?st \<noteq> []" by code_simp
  have h2: "\<not> refuses ?st" by code_simp
  have h3: "\<exists>a \<in> set (agents (runWorkflow ?rt ?st)).
            error a = Some ''The provided Gemini API key is not valid. Please check it.''"
    by code_simp
  have h4: "userGeminiApiKey ?st = ''stored-key''" by code_simp
  have h5: "userOpenAIApiKey ?st = ''stored-openai-key''" by code_simp
  from invalidation_keeps_environment_key [of ?rt ?st] h1 h2 h3 h5
  have "userGeminiApiKey (runWorkflow ?rt ?st) = []"
    and "userOpenAIApiKey (runWorkflow ?rt ?st) = ''stored-openai-key''"
    and "effectiveGeminiApiKey (runWorkflow ?rt ?st) = effectiveGeminiApiKey ?st"
    by simp_all
  with h1 h2 h3 h4 show ?thesis unfolding Let_def by blast
qed

section \<open>Which candidate the extractor parses\<close>

lemma find_first_None_iff: "find_first pat s = None \<longleftrightarrow> \<not> sublist pat s"
  by (induction s) (auto simp: sublist_Cons_right)

lemma find_first_leftmost:
  assumes "pat \<noteq> []" and "\<not> sublist pat (pre @ butlast pat)"
  shows "find_first pat (pre @ pat @ post) = Some (pre, post)"
  using assms
proof (induction pre)
  case Nil
  then obtain p ps where "pat = p # ps" by (cases pat) auto
  then show ?case by simp
next
  case (Cons x pre)
  have "\<not> prefix pat (x # pre @ pat @ post)"
  proof
    assume p: "prefix pat (x # pre @ pat @ post)"
    have "x # pre @ pat @ post = (x # pre @ butlast pat) @ last pat # post"
      using Cons.prems(1) by simp
    moreover have "length pat \<le> length (x # pre @ butlast pat)" by simp
    ultimately have "prefix pat (x # pre @ butlast pat)"
      using p by (metis prefix_length_prefix prefixI)
    then have "sublist pat ((x # pre) @ butlast pat)" by auto
    with Cons.prems(2) show False by simp
  qed
  moreover have "\<not> sublist pat (pre @ butlast pat)"
    using Cons.prems(2) by (auto simp: sublist_Cons_right)
  ultimately show ?case using Cons.IH Cons.prems(1) by simp
qed

lemma alt_fence_None_iff: "alt_fence s = None \<longleftrightarrow> \<not> fenced_at s"
  by (simp add: alt_fence_def fenced_at_def find_first_None_iff)

lemma alt_fence_shortest:
  assumes "\<not> sublist fence_close (inner @ butlast fence_close)"
  shows "alt_fence (fence_open @ inner @ fence_close @ post) = Some inner"
proof -
  have "find_first fence_close (inner @ fence_close @ post) = Some (inner, post)"
    using assms by (intro find_first_leftmost) (simp_all add: fence_close_def)
  then show ?thesis by (simp add: alt_fence_def)
qed

lemma match_fence_skip:
  assumes "\<forall>k < length pre. \<not> fenced_at (drop k (pre @ s))"
  shows "match_fence (pre @ s) = match_fence s"
  using assms
proof (induction pre)
  case Nil
  then show ?case by simp
next
  case (Cons x pre)
  from Cons.prems have "\<not> fenced_at (drop 0 ((x # pre) @ s))" by blast
  then have a: "alt_fence (x # pre @ s) = None" by (simp add: alt_fence_None_iff)
  have "\<forall>k < length pre. \<not> fenced_at (drop k (pre @ s))"
  proof (intro allI impI)
    fix k assume "k < length pre"
    then have "\<not> fenced_at (drop (Suc k) ((x # pre) @ s))" using Cons.prems by auto
    then show "\<not> fenced_at (drop k (pre @ s))" by simp
  qed
  with Cons.IH a show ?case by simp
qed

lemma match_fence_here: "alt_fence s = Some g \<Longrightarrow> match_fence s = Some g"
  by (cases s) (simp_all add: alt_fence_def fence_open_def)

lemma alt_span_None_iff: "alt_span opening closing s = None \<longleftrightarrow> \<not> span_at opening closing s"
  by (simp add: alt_span_def span_at_def split: list.splits)

lemma through_last_last:
  assumes "c \<notin> set post"
  shows "through_last c (mid @ c # post) = mid @ [c]"
proof -
  have "dropWhile (\<lambda>x. x \<noteq> c) (rev post @ c # rev mid) = dropWhile (\<lambda>x. x \<noteq> c) (c # rev mid)"
    by (rule dropWhile_append2) (use assms in auto)
  then show ?thesis by (simp add: through_last_def)
qed

lemma alt_span_greedy:
  "c \<notin> set post \<Longrightarrow> alt_span opening c (opening # mid @ c # post) = Some (opening # mid @ [c])"
  by (simp add: alt_span_def through_last_last)

lemma match_part001_skip:
  assumes "\<forall>k < length pre. \<not> matches_at (drop k (pre @ s))"
  shows "match_part001 (pre @ s) = match_part001 s"
  using assms
proof (induction pre)
  case Nil
  then show ?case by simp
next
  case (Cons x pre)
  from Cons.prems have "\<not> matches_at (drop 0 ((x # pre) @ s))" by blast
  then have a: "alt_fence (x # pre @ s) = None"
    "alt_span CHR ''{'' CHR ''}'' (x # pre @ s) = None"
    "alt_span CHR ''['' CHR '']'' (x # pre @ s) = None"
    by (simp_all add: alt_fence_None_iff alt_span_None_iff matches_at_def)
  have "\<forall>k < length pre. \<not> matches_at (drop k (pre @ s))"
  proof (intro allI impI)
    fix k assume "k < length pre"
    then have "\<not> matches_at (drop (Suc k) ((x # pre) @ s))" using Cons.prems by auto
    then show "\<not> matches_at (drop k (pre @ s))" by simp
  qed
  with Cons.IH a show ?case by simp
qed

lemma not_fence_bracket: "c \<noteq> CHR 0x60 \<Longrightarrow> alt_fence (c # s) = None"
  by (simp add: alt_fence_def fence_open_def)

text \<open>
  Which candidate each revision hands to \<^verbatim>\<open>JSON.parse\<close>; it is exactly one.

  \<^verbatim>\<open>src/App.tsx\<close> (and revision \<open>part002\<close>) has two candidates: the interior of the
  leftmost fenced \<^verbatim>\<open>json\<close> block, up to the first closing fence; and the entire text
  when the text holds no fenced block. It does not look for an object or array literal.

  Revision \<open>part001\<close> takes the leftmost position at which a fenced block, a \<^verbatim>\<open>{\<close> with
  a later \<^verbatim>\<open>}\<close>, or a \<^verbatim>\<open>[\<close> with a later \<^verbatim>\<open>]\<close> begins, whichever of the three it is. The
  candidate is the interior of the fenced block, or the text from that bracket through
  the last closing bracket of its kind in the whole text; and the entire text when there
  is no such position. A bracket span is neither balanced nor the first literal, and a
  bracket that stands before a fenced block wins over the block. A fenced block with an
  empty interior makes \<^verbatim>\<open>jsonString\<close> \<^verbatim>\<open>undefined\<close>, which \<^verbatim>\<open>JSON.parse\<close> reads as the text
  \<^verbatim>\<open>undefined\<close>.
\<close>

theorem candidate_of_parseJsonOutput:
  "(input = pre @ fence_open @ inner @ fence_close @ post
      \<and> (\<forall>k < length pre. \<not> fenced_at (drop k input))
      \<and> \<not> sublist fence_close (inner @ butlast fence_close)
    \<longrightarrow> parseJsonOutput_arg input = inner)
   \<and> ((\<forall>k < length input. \<not> fenced_at (drop k input)) \<longrightarrow> parseJsonOutput_arg input = input)
   \<and> (input = pre @ fence_open @ inner @ fence_close @ post
      \<and> (\<forall>k < length pre. \<not> matches_at (drop k input))
      \<and> \<not> sublist fence_close (inner @ butlast fence_close) \<and> inner \<noteq> []
    \<longrightarrow> parseJsonOutput_part001_arg input = inner)
   \<and> (input = pre @ CHR ''{'' # mid @ CHR ''}'' # post
      \<and> (\<forall>k < length pre. \<not> matches_at (drop k input)) \<and> CHR ''}'' \<notin> set post
    \<longrightarrow> parseJsonOutput_part001_arg input = CHR ''{'' # mid @ ''}'')
   \<and> (input = pre @ CHR ''['' # mid @ CHR '']'' # post
      \<and> (\<forall>k < length pre. \<not> matches_at (drop k input)) \<and> CHR '']'' \<notin> set post
    \<longrightarrow> parseJsonOutput_part001_arg input = CHR ''['' # mid @ '']'')
   \<and> ((\<forall>k < length input. \<not> matches_at (drop k input)) \<longrightarrow> parseJsonOutput_part001_arg input = input)
   \<and> (input = pre @ fence_open @ fence_close @ post
      \<and> (\<forall>k < length pre. \<not> matches_at (drop k input))
    \<longrightarrow> parseJsonOutput_part001_arg input = ''undefined'')"
proof (intro conjI impI; (elim conjE)?)
  assume t: "input = pre @ fence_open @ inner @ fence_close @ post"
    and l: "\<forall>k < length pre. \<not> fenced_at (drop k input)"
    and s: "\<not> sublist fence_close (inner @ butlast fence_close)"
  have "match_fence input = match_fence (fence_open @ inner @ fence_close @ post)"
    unfolding t using l [unfolded t] by (rule match_fence_skip)
  also have "\<dots> = Some inner" by (rule match_fence_here [OF alt_fence_shortest [OF s]])
  finally show "parseJsonOutput_arg input = inner" by (simp add: parseJsonOutput_arg_def)
next
  assume "\<forall>k < length input. \<not> fenced_at (drop k input)"
  then have "match_fence (input @ []) = match_fence []" by (intro match_fence_skip) simp
  then show "parseJsonOutput_arg input = input" by (simp add: parseJsonOutput_arg_def)
next
  assume t: "input = pre @ fence_open @ inner @ fence_close @ post"
    and l: "\<forall>k < length pre. \<not> matches_at (drop k input)"
    and s: "\<not> sublist fence_close (inner @ butlast fence_close)" and ne: "inner \<noteq> []"
  have "match_part001 input = match_part001 (fence_open @ inner @ fence_close @ post)"
    unfolding t using l [unfolded t] by (rule match_part001_skip)
  also have "\<dots> = Some (Some inner, None, None)"
    using alt_fence_shortest [OF s, of post] by (simp add: fence_open_def)
  finally show "parseJsonOutput_part001_arg input = inner"
    using ne by (simp add: parseJsonOutput_part001_arg_def js_or_def)
next
  assume t: "input = pre @ CHR ''{'' # mid @ CHR ''}'' # post"
    and l: "\<forall>k < length pre. \<not> matches_at (drop k input)" and c: "CHR ''}'' \<notin> set post"
  have "match_part001 input = match_part001 (CHR ''{'' # mid @ CHR ''}'' # post)"
    unfolding t using l [unfolded t] by (rule match_part001_skip)
  also have "\<dots> = Some (None, Some (CHR ''{'' # mid @ ''}''), None)"
    using alt_span_greedy [OF c, of "CHR ''{''" mid] by (simp add: not_fence_bracket)
  finally show "parseJsonOutput_part001_arg input = CHR ''{'' # mid @ ''}''"
    by (simp add: parseJsonOutput_part001_arg_def js_or_def)
next
  assume t: "input = pre @ CHR ''['' # mid @ CHR '']'' # post"
    and l: "\<forall>k < length pre. \<not> matches_at (drop k input)" and c: "CHR '']'' \<notin> set post"
  have "match_part001 input = match_part001 (CHR ''['' # mid @ CHR '']'' # post)"
    unfolding t using l [unfolded t] by (rule match_part001_skip)
  also have "\<dots> = Some (None, None, Some (CHR ''['' # mid @ '']''))"
    using alt_span_greedy [OF c, of "CHR ''[''" mid]
    by (simp add: not_fence_bracket alt_span_def [of "CHR ''{''"])
  finally show "parseJsonOutput_part001_arg input = CHR ''['' # mid @ '']''"
    by (simp add: parseJsonOutput_part001_arg_def js_or_def)
next
  assume "\<forall>k < length input. \<not> matches_at (drop k input)"
  then have "match_part001 (input @ []) = match_part001 []" by (intro match_part001_skip) simp
  then show "parseJsonOutput_part001_arg input = input" by (simp add: parseJsonOutput_part001_arg_def)
next
  assume t: "input = pre @ fence_open @ fence_close @ post"
    and l: "\<forall>k < length pre. \<not> matches_at (drop k input)"
  have s: "\<not> sublist fence_close ([] @ butlast fence_close)" by code_simp
  have "match_part001 input = match_part001 (fence_open @ fence_close @ post)"
    unfolding t using l [unfolded t] by (rule match_part001_skip)
  also have "\<dots> = Some (Some [], None, None)"
    using alt_fence_shortest [OF s, of post] by (simp add: fence_open_def)
  finally show "parseJsonOutput_part001_arg input = ''undefined''"
    by (simp add: parseJsonOutput_part001_arg_def js_or_def)
qed

text \<open>
  Instances: prose followed by two object literals, and an object literal followed by a
  fenced block.
\<close>

theorem candidate_of_parseJsonOutput_witness:
  "''Result: {} and {}'' = ''Result: '' @ CHR ''{'' # ''} and {'' @ CHR ''}'' # []
   \<and> list_all (\<lambda>k. \<not> matches_at (drop k ''Result: {} and {}'')) [0 ..< length ''Result: '']
   \<and> CHR ''}'' \<notin> set []
   \<and> parseJsonOutput_part001_arg ''Result: {} and {}'' = ''{} and {}''
   \<and> list_all (\<lambda>k. \<not> fenced_at (drop k ''Result: {} and {}''))
         [0 ..< length ''Result: {} and {}'']
   \<and> parseJsonOutput_arg ''Result: {} and {}'' = ''Result: {} and {}''
   \<and> ''{} ```json\<newline>1\<newline>```'' = ''{} '' @ fence_open @ ''1'' @ fence_close @ []
   \<and> list_all (\<lambda>k. \<not> fenced_at (drop k ''{} ```json\<newline>1\<newline>```'')) [0 ..< length ''{} '']
   \<and> \<not> sublist fence_close (''1'' @ butlast fence_close)
   \<and> parseJsonOutput_arg ''{} ```json\<newline>1\<newline>```'' = ''1''"
proof -
  have h1: "''Result: {} and {}'' = ''Result: '' @ CHR ''{'' # ''} and {'' @ CHR ''}'' # []"
    by simp
  have l2: "list_all (\<lambda>k. \<not> matches_at (drop k ''Result: {} and {}'')) [0 ..< length ''Result: '']"
    by code_simp
  then have h2: "\<forall>k < length ''Result: ''. \<not> matches_at (drop k ''Result: {} and {}'')"
    by (rule iffD1 [OF list_all_upt])
  have h3: "CHR ''}'' \<notin> set []" by simp
  have l4: "list_all (\<lambda>k. \<not> fenced_at (drop k ''Result: {} and {}''))
         [0 ..< length ''Result: {} and {}'']"
    by code_simp
  then have h4: "\<forall>k < length ''Result: {} and {}''. \<not> fenced_at (drop k ''Result: {} and {}'')"
    by (rule iffD1 [OF list_all_upt])
  have h5: "''{} ```json\<newline>1\<newline>```'' = ''{} '' @ fence_open @ ''1'' @ fence_close @ []"
    by (simp add: fence_open_def fence_close_def)
  have l6: "list_all (\<lambda>k. \<not> fenced_at (drop k ''{} ```json\<newline>1\<newline>```'')) [0 ..< length ''{} '']"
    by code_simp
  then have h6: "\<forall>k < length ''{} ''. \<not> fenced_at (drop k ''{} ```json\<newline>1\<newline>```'')"
    by (rule iffD1 [OF list_all_upt])
  have h7: "\<not> sublist fence_close (''1'' @ butlast fence_close)" by code_simp
  note T1 = candidate_of_parseJsonOutput
    [where input = "''Result: {} and {}''" and pre = "''Result: ''" and mid = "''} and {''"
       and post = "[]"]
  note T1_span = T1 [THEN conjunct2, THEN conjunct2, THEN conjunct2, THEN conjunct1, THEN mp]
  note T1_whole = T1 [THEN conjunct2, THEN conjunct1, THEN mp]
  have "parseJsonOutput_part001_arg ''Result: {} and {}'' = CHR ''{'' # ''} and {'' @ ''}''"
    by (rule T1_span) (intro conjI h1 h2 h3)
  then have c1: "parseJsonOutput_part001_arg ''Result: {} and {}'' = ''{} and {}''"
    by simp
  have c2: "parseJsonOutput_arg ''Result: {} and {}'' = ''Result: {} and {}''"
    by (rule T1_whole) (rule h4)
  note T2 = candidate_of_parseJsonOutput
    [where input = "''{} ```json\<newline>1\<newline>```''" and pre = "''{} ''" and inner = "''1''"
       and post = "[]"]
  have c3: "parseJsonOutput_arg ''{} ```json\<newline>1\<newline>```'' = ''1''"
    by (rule T2 [THEN conjunct1, THEN mp]) (intro conjI h5 h6 h7)
  from h1 l2 h3 l4 h5 l6 h7 c1 c2 c3 show ?thesis by (intro conjI)
qed

text \<open>
  Claim C2 at three texts, for a parser that accepts the texts \<^verbatim>\<open>{}\<close> and \<^verbatim>\<open>[1]\<close> and
  throws on every other text used here, as \<^verbatim>\<open>JSON.parse\<close> does. \<open>spec_candidate\<close> is the
  candidate in the order the specification gives.

  \<^item> Prose before an object literal, \<^verbatim>\<open>Result: {}\<close>: the specification takes the literal
    \<^verbatim>\<open>{}\<close>. \<^verbatim>\<open>src/App.tsx\<close> has no literal step, parses the entire text and returns
    \<^verbatim>\<open>null\<close>; revision \<open>part001\<close> takes the literal and returns the object.
  \<^item> An array literal before a fenced block: the specification takes the interior of
    the block, and so does \<^verbatim>\<open>src/App.tsx\<close>; revision \<open>part001\<close> takes the literal, which
    stands further left.
  \<^item> Two object literals, \<^verbatim>\<open>{} and {}\<close>: the first balanced literal is \<^verbatim>\<open>{}\<close>;
    \<^verbatim>\<open>src/App.tsx\<close> parses the entire text, and revision \<open>part001\<close> the span from the
    first \<^verbatim>\<open>{\<close> through the last \<^verbatim>\<open>}\<close>, which is the entire text as well: both return
    \<^verbatim>\<open>null\<close>.
\<close>

theorem literal_candidate_not_tried:
  "let parse = (\<lambda>s. if s = ''{}'' then Inr (JObject [])
                     else if s = ''[1]'' then Inr (JArray [JNumber 1])
                     else Inl (JsError ''SyntaxError''))
   in spec_candidate ''Result: {}'' = ''{}''
      \<and> parseJsonOutput_arg ''Result: {}'' = ''Result: {}''
      \<and> parseJsonOutput parse ''Result: {}'' = Inr JNull
      \<and> parseJsonOutput_part001_arg ''Result: {}'' = ''{}''
      \<and> parseJsonOutput_part001 parse ''Result: {}'' = Inr (JObject [])
      \<and> spec_candidate ''[1] ```json\<newline>{}\<newline>```'' = ''{}''
      \<and> parseJsonOutput_arg ''[1] ```json\<newline>{}\<newline>```'' = ''{}''
      \<and> parseJsonOutput parse ''[1] ```json\<newline>{}\<newline>```'' = Inr (JObject [])
      \<and> parseJsonOutput_part001_arg ''[1] ```json\<newline>{}\<newline>```'' = ''[1]''
      \<and> parseJsonOutput_part001 parse ''[1] ```json\<newline>{}\<newline>```'' = Inr (JArray [JNumber 1])
      \<and> spec_candidate ''{} and {}'' = ''{}''
      \<and> parseJsonOutput_arg ''{} and {}'' = ''{} and {}''
      \<and> parseJsonOutput parse ''{} and {}'' = Inr JNull
      \<and> parseJsonOutput_part001_arg ''{} and {}'' = ''{} and {}''
      \<and> parseJsonOutput_part001 parse ''{} and {}'' = Inr JNull"
  by code_simp

section \<open>Preconditions of a run\<close>

text \<open>
  Claim C5, as the code has it. The credential check of \<^verbatim>\<open>runWorkflow\<close> (\<^verbatim>\<open>src/App.tsx\<close>
  and revision \<open>part002\<close>) looks at the whole agent list before anything else happens, for
  the providers \<^verbatim>\<open>gemini\<close> and \<^verbatim>\<open>openai\<close>, in this order. When an agent names \<^verbatim>\<open>gemini\<close>
  and no Gemini key is set, the run ends at once: the state is unchanged (agents,
  requests and all) except for one message, which names Gemini, and the opened key
  dialog. Otherwise, when an agent names \<^verbatim>\<open>openai\<close> and no OpenAI key is set, the same
  happens with the message that names OpenAI. One message is shown, for the first
  provider found missing.
\<close>

theorem credentials_checked_up_front:
  "((\<exists>a \<in> set (agents st). element (split_on CHR ''/'' (model a)) 0 = Some ''gemini'')
       \<and> \<not> isGeminiKeySet st
     \<longrightarrow> runWorkflow rt st =
           st\<lparr>apiKeyError := ''A Gemini API key is required for this workflow.'',
              isApiKeyModalOpen := True\<rparr>
         \<and> runWorkflow_part002 rt st = runWorkflow rt st)
   \<and> (\<not> ((\<exists>a \<in> set (agents st). element (split_on CHR ''/'' (model a)) 0 = Some ''gemini'')
           \<and> \<not> isGeminiKeySet st)
       \<and> (\<exists>a \<in> set (agents st). element (split_on CHR ''/'' (model a)) 0 = Some ''openai'')
       \<and> \<not> isOpenAIKeySet st
     \<longrightarrow> runWorkflow rt st =
           st\<lparr>apiKeyError := ''An OpenAI API key is required for this workflow.'',
              isApiKeyModalOpen := True\<rparr>
         \<and> runWorkflow_part002 rt st = runWorkflow rt st)"
  by (auto simp: runWorkflow_def runWorkflow_part002_def requiredProviders_def image_iff)

text \<open>
  An instance: a Gemini agent and an OpenAI agent, a Gemini key from the environment and
  no OpenAI key.
\<close>

theorem credentials_checked_up_front_witness:
  "let st = handleAgentChange ''agent-1700000000001'' ModelField ''openai/gpt-4o-mini''
             (addAgent 1700000000001 \<lparr>t_name = ''Entity Extractor'', t_prompt = ''List the entities.''\<rparr>
               (addAgent 1700000000000 \<lparr>t_name = ''Summarizer'', t_prompt = ''Summarize.''\<rparr>
                 ((initial_app ''env-key'' [] [] [])\<lparr>documentFile := \<lparr>doc_type = TXT, content = ''A report.''\<rparr>\<rparr>)));
       rt = \<lparr>JSON_parse = (\<lambda>s. Inl (JsError ''SyntaxError'')),
             generateContent = (\<lambda>i m p. Inr ''answer''),
             chatCompletionsCreate = (\<lambda>i m p. Inr None)\<rparr>
   in \<not> ((\<exists>a \<in> set (agents st). element (split_on CHR ''/'' (model a)) 0 = Some ''gemini'')
           \<and> \<not> isGeminiKeySet st)
      \<and> (\<exists>a \<in> set (agents st). element (split_on CHR ''/'' (model a)) 0 = Some ''openai'')
      \<and> \<not> isOpenAIKeySet st
      \<and> runWorkflow rt st =
           st\<lparr>apiKeyError := ''An OpenAI API key is required for this workflow.'',
              isApiKeyModalOpen := True\<rparr>
      \<and> agents (runWorkflow rt st) = agents st
      \<and> requests (runWorkflow rt st) = []"
proof -
  let ?st = "handleAgentChange ''agent-1700000000001'' ModelField ''openai/gpt-4o-mini''
             (addAgent 1700000000001 \<lparr>t_name = ''Entity Extractor'', t_prompt = ''List the entities.''\<rparr>
               (addAgent 1700000000000 \<lparr>t_name = ''Summarizer'', t_prompt = ''Summarize.''\<rparr>
                 ((initial_app ''env-key'' [] [] [])\<lparr>documentFile := \<lparr>doc_type = TXT, content = ''A report.''\<rparr>\<rparr>)))"
  let ?rt = "\<lparr>JSON_parse = (\<lambda>s. Inl (JsError ''SyntaxError'')),
             generateContent = (\<lambda>i m p. Inr ''answer''),
             chatCompletionsCreate = (\<lambda>i m p. Inr None)\<rparr>"
  have h1: "\<not> ((\<exists>a \<in> set (agents ?st). element (split_on CHR ''/'' (model a)) 0 = Some ''gemini'')
           \<and> \<not> isGeminiKeySet ?st)" by code_simp
  have h2: "\<exists>a \<in> set (agents ?st). element (split_on CHR ''/'' (model a)) 0 = Some ''openai''"
    by code_simp
  have h3: "\<not> isOpenAIKeySet ?st" by code_simp
  have h4: "requests ?st = []" by code_simp
  from credentials_checked_up_front [of ?st ?rt] h1 h2 h3
  have run: "runWorkflow ?rt ?st =
           ?st\<lparr>apiKeyError := ''An OpenAI API key is required for this workflow.'',
              isApiKeyModalOpen := True\<rparr>"
    by blast
  then have "agents (runWorkflow ?rt ?st) = agents ?st" and "requests (runWorkflow ?rt ?st) = []"
    using h4 by simp_all
  with h1 h2 h3 run show ?thesis unfolding Let_def by blast
qed

text \<open>
  The claim says the user is told about all missing credentials. With a Gemini agent, an
  OpenAI agent and no key at all, the message names Gemini only.
\<close>

theorem credentials_checked_up_front_counterexample:
  "let st = handleAgentChange ''agent-1700000000001'' ModelField ''openai/gpt-4o-mini''
             (addAgent 1700000000001 \<lparr>t_name = ''Entity Extractor'', t_prompt = ''List the entities.''\<rparr>
               (addAgent 1700000000000 \<lparr>t_name = ''Summarizer'', t_prompt = ''Summarize.''\<rparr>
                 ((initial_app [] [] [] [])\<lparr>documentFile := \<lparr>doc_type = TXT, content = ''A report.''\<rparr>\<rparr>)));
       rt = \<lparr>JSON_parse = (\<lambda>s. Inl (JsError ''SyntaxError'')),
             generateContent = (\<lambda>i m p. Inr ''answer''),
             chatCompletionsCreate = (\<lambda>i m p. Inr None)\<rparr>
   in map model (agents st) = [''gemini/gemini-2.5-flash'', ''openai/gpt-4o-mini'']
      \<and> \<not> isGeminiKeySet st \<and> \<not> isOpenAIKeySet st
      \<and> apiKeyError (runWorkflow rt st) = ''A Gemini API key is required for this workflow.''
      \<and> \<not> js_includes (toLowerCase (apiKeyError (runWorkflow rt st))) ''openai''"
  by code_simp

text \<open>
  The document check of revision \<open>part001\<close>: with a key set, a run on an empty document
  only raises the alert.
\<close>

lemma runWorkflow_part001_refuses_document:
  assumes "isGeminiKeySet st"
    and "content (documentFile st) = [] \<or> doc_type (documentFile st) = EMPTY"
  shows "runWorkflow_part001 rt st = st\<lparr>alerts := alerts st @ [''Please load a document first.'']\<rparr>"
  using assms by (auto simp: runWorkflow_part001_def)

text \<open>
  Claim C4 on \<^verbatim>\<open>src/App.tsx\<close>, whose \<^verbatim>\<open>runWorkflow\<close> has no document check: with no
  document loaded (type \<open>EMPTY\<close>, empty content), one agent and a Gemini key, the run
  starts, sends the agent's prompt with an empty document and ends with the agent in
  status \<open>Success\<close>; no message is shown. Revision \<open>part001\<close> refuses the same run with the
  alert.
\<close>

theorem empty_document_is_dispatched:
  "let st = addAgent 1700000000000 \<lparr>t_name = ''Summarizer'', t_prompt = ''Summarize.''\<rparr>
              (initial_app ''env-key'' [] [] []);
       rt = \<lparr>JSON_parse = (\<lambda>s. Inl (JsError ''SyntaxError'')),
             generateContent = (\<lambda>i m p. Inr ''There is no document.''),
             chatCompletionsCreate = (\<lambda>i m p. Inr None)\<rparr>
   in documentFile st = \<lparr>doc_type = EMPTY, content = []\<rparr>
      \<and> map status (agents st) = [Pending]
      \<and> map status (agents (runWorkflow rt st)) = [Success]
      \<and> map agent_output (agents (runWorkflow rt st)) = [Some ''There is no document.'']
      \<and> map r_prompt (requests (runWorkflow rt st)) =
           [''DOCUMENT CONTENT:\<newline>---\<newline>\<newline>---\<newline>\<newline>TASK:\<newline>Summarize.'']
      \<and> apiKeyError (runWorkflow rt st) = [] \<and> alerts (runWorkflow rt st) = []
      \<and> runWorkflow_part001 rt st = st\<lparr>alerts := [''Please load a document first.'']\<rparr>"
  by code_simp

section \<open>Agent ids\<close>

text \<open>
  Claim C8 at two calls of \<^verbatim>\<open>addAgent\<close> for which \<^verbatim>\<open>Date.now()\<close> returns the same
  millisecond: both agents get the same \<^verbatim>\<open>id\<close>. (Both start in status \<open>Pending\<close>.)
\<close>

theorem addAgent_same_millisecond:
  "let st = addAgent 1700000000000 \<lparr>t_name = ''Entity Extractor'', t_prompt = ''List the entities.''\<rparr>
             (addAgent 1700000000000 \<lparr>t_name = ''Summarizer'', t_prompt = ''Summarize.''\<rparr>
               (initial_app ''env-key'' [] [] []))
   in map agent_id (agents st) = [''agent-1700000000000'', ''agent-1700000000000'']
      \<and> \<not> distinct (map agent_id (agents st))
      \<and> map status (agents st) = [Pending, Pending]"
  by code_simp

section \<open>Properties of the aggregator\<close>







end
